theory Spec2Isabelle
  imports Main "HOL-Library.AList"
begin

section \<open>JSON values, documents and identifiers\<close>

text \<open>
  The handlers move JSON objects between the HTTP layer and two MongoDB collections.
  An object is an association list read with \<open>map_of\<close> (the first binding of a key is
  the property); \<open>AList.update\<close> is the assignment of a property: it replaces the value
  in place when the key is there and appends the binding otherwise, as a JavaScript
  object does. Numbers are carried as opaque payload; no handler computes with them.

  An \<open>ObjectId\<close> is twelve bytes. It is represented by its canonical form, the 24
  lower-case hexadecimal digits that \<open>toHexString\<close> returns, so that two identifiers
  are equal exactly when their bytes are.
\<close>

datatype ObjectId = ObjectId (toHexString: string)

datatype jval =
    JNull
  | JBool bool
  | JNum int
  | JStr string
  | JOid ObjectId
  | JArr "jval list"
  | JObj "(string \<times> jval) list"

type_synonym doc = "(string \<times> jval) list"

datatype error = BSONError | StoreError string

definition isHexChar :: "char \<Rightarrow> bool" where
  "isHexChar c = (c \<in> set ''0123456789abcdefABCDEF'')"

definition isLowerHexChar :: "char \<Rightarrow> bool" where
  "isLowerHexChar c = (c \<in> set ''0123456789abcdef'')"

definition hexLower :: "char \<Rightarrow> char" where
  "hexLower c =
     (if c = CHR ''A'' then CHR ''a''
      else if c = CHR ''B'' then CHR ''b''
      else if c = CHR ''C'' then CHR ''c''
      else if c = CHR ''D'' then CHR ''d''
      else if c = CHR ''E'' then CHR ''e''
      else if c = CHR ''F'' then CHR ''f''
      else c)"

text \<open>
  \<open>new ObjectId(id)\<close> on a string, as the driver's BSON library (version 6) does it:
  the string must be 24 hexadecimal digits of either case, anything else throws. (Earlier
  versions also took any string of 12 characters; the inputs used below are invalid or
  valid under both.)
\<close>

definition new_ObjectId :: "string \<Rightarrow> error + ObjectId" where
  "new_ObjectId s =
     (if length s = 24 \<and> list_all isHexChar s then Inr (ObjectId (map hexLower s))
      else Inl BSONError)"

text \<open>The identifiers that twelve bytes can be: 24 lower-case hexadecimal digits.\<close>

definition oid_ok :: "ObjectId \<Rightarrow> bool" where
  "oid_ok i = (length (toHexString i) = 24 \<and> list_all isLowerHexChar (toHexString i))"

text \<open>
  \<open>JSON.stringify\<close> as \<open>res.json\<close> applies it: an \<open>ObjectId\<close> is written as its
  hexadecimal string, everything else keeps its shape.
\<close>

primrec toJSON :: "jval \<Rightarrow> jval" where
  "toJSON JNull = JNull"
| "toJSON (JBool b) = JBool b"
| "toJSON (JNum n) = JNum n"
| "toJSON (JStr s) = JStr s"
| "toJSON (JOid i) = JStr (toHexString i)"
| "toJSON (JArr xs) = JArr (map toJSON xs)"
| "toJSON (JObj kvs) = JObj (map (map_prod (\<lambda>k. k) toJSON) kvs)"

section \<open>The document store\<close>

text \<open>
  The two collections are handles of the MongoDB driver, which is not part of the
  repository. They are modelled by the driver's documented behaviour on the calls the
  handlers make: a collection is the list of its documents in natural order, and every
  call is recorded in \<open>calls\<close> before it runs. What the handlers cannot control is an
  input: \<open>store_error\<close> is the error the store call of this request throws (lost
  connection, internal error, a collection handle that was never assigned), if any, and
  \<open>createPk\<close> is the identifier the driver generates for a document inserted without
  one. A call that throws leaves the collections as they were.
\<close>

datatype collection = Notes | Folders

datatype store_call =
    InsertOne collection doc
  | Find collection doc
  | FindOne collection doc
  | UpdateOne collection doc doc
  | DeleteOne collection doc

record store =
  notesCollection :: "doc list"
  folderCollection :: "doc list"
  calls :: "store_call list"

record decoded_token =
  uid :: string

record env =
  verifyIdToken :: "string \<Rightarrow> decoded_token option"
  store_error :: "string option"
  createPk :: ObjectId

definition docs :: "collection \<Rightarrow> store \<Rightarrow> doc list" where
  "docs c s = (case c of Notes \<Rightarrow> notesCollection s | Folders \<Rightarrow> folderCollection s)"

definition set_docs :: "collection \<Rightarrow> doc list \<Rightarrow> store \<Rightarrow> store" where
  "set_docs c ds s =
     (case c of Notes \<Rightarrow> s\<lparr>notesCollection := ds\<rparr> | Folders \<Rightarrow> s\<lparr>folderCollection := ds\<rparr>)"

definition record_call :: "store_call \<Rightarrow> store \<Rightarrow> store" where
  "record_call c s = s\<lparr>calls := calls s @ [c]\<rparr>"

text \<open>
  An equality condition \<open>{field: v}\<close> with a string or an \<open>ObjectId\<close> for \<open>v\<close>, the
  only conditions the handlers build: the field is there and either equals \<open>v\<close> or is
  an array with \<open>v\<close> among its elements. A filter is the conjunction of its conditions.
\<close>

definition field_matches :: "jval \<Rightarrow> jval \<Rightarrow> bool" where
  "field_matches fv v = (fv = v \<or> (case fv of JArr xs \<Rightarrow> v \<in> set xs | _ \<Rightarrow> False))"

definition matches :: "doc \<Rightarrow> doc \<Rightarrow> bool" where
  "matches flt d =
     list_all (\<lambda>(k, v). case map_of d k of None \<Rightarrow> False | Some fv \<Rightarrow> field_matches fv v) flt"

definition is_array :: "jval \<Rightarrow> bool" where
  "is_array v = (case v of JArr xs \<Rightarrow> True | _ \<Rightarrow> False)"

text \<open>
  \<open>insertOne\<close>: a document whose \<open>_id\<close> is missing or null gets the generated
  identifier; any other \<open>_id\<close> is kept as the caller wrote it. The unique index on
  \<open>_id\<close> rejects a value that is already in the collection, and an array is not a
  legal \<open>_id\<close>. The acknowledgement carries the identifier of the stored document.
\<close>

definition insertOne ::
  "env \<Rightarrow> collection \<Rightarrow> doc \<Rightarrow> store \<Rightarrow> (error + jval) \<times> store" where
  "insertOne e c d s =
     (let s' = record_call (InsertOne c d) s in
      case store_error e of
        Some detail \<Rightarrow> (Inl (StoreError detail), s')
      | None \<Rightarrow>
          (let (i, d') =
                 (case map_of d ''_id'' of
                    None \<Rightarrow> (JOid (createPk e), AList.update ''_id'' (JOid (createPk e)) d)
                  | Some JNull \<Rightarrow> (JOid (createPk e), AList.update ''_id'' (JOid (createPk e)) d)
                  | Some v \<Rightarrow> (v, d))
           in if is_array i then (Inl (StoreError ''_id cannot be an array''), s')
              else if list_ex (\<lambda>x. map_of x ''_id'' = Some i) (docs c s)
              then (Inl (StoreError ''E11000 duplicate key error''), s')
              else (Inr (JObj [(''acknowledged'', JBool True), (''insertedId'', i)]),
                    set_docs c (docs c s @ [d']) s')))"

definition find_toArray ::
  "env \<Rightarrow> collection \<Rightarrow> doc \<Rightarrow> store \<Rightarrow> (error + doc list) \<times> store" where
  "find_toArray e c flt s =
     (let s' = record_call (Find c flt) s in
      case store_error e of
        Some detail \<Rightarrow> (Inl (StoreError detail), s')
      | None \<Rightarrow> (Inr (filter (matches flt) (docs c s)), s'))"

definition findOne ::
  "env \<Rightarrow> collection \<Rightarrow> doc \<Rightarrow> store \<Rightarrow> (error + doc option) \<times> store" where
  "findOne e c flt s =
     (let s' = record_call (FindOne c flt) s in
      case store_error e of
        Some detail \<Rightarrow> (Inl (StoreError detail), s')
      | None \<Rightarrow> (Inr (List.find (matches flt) (docs c s)), s'))"

text \<open>
  \<open>$set\<close> assigns each field of the update to the document, in the update's order.
  Field names are taken as plain top-level names.
\<close>

definition apply_set :: "doc \<Rightarrow> doc \<Rightarrow> doc" where
  "apply_set upd d = fold (\<lambda>(k, v) acc. AList.update k v acc) upd d"

fun replace_first :: "('a \<Rightarrow> bool) \<Rightarrow> ('a \<Rightarrow> 'a) \<Rightarrow> 'a list \<Rightarrow> 'a list" where
  "replace_first P f [] = []"
| "replace_first P f (x # xs) = (if P x then f x # xs else x # replace_first P f xs)"

fun remove_first :: "('a \<Rightarrow> bool) \<Rightarrow> 'a list \<Rightarrow> 'a list" where
  "remove_first P [] = []"
| "remove_first P (x # xs) = (if P x then xs else x # remove_first P xs)"

text \<open>
  \<open>updateOne(filter, {$set: update})\<close> changes the first document that matches and
  reports how many matched (0 or 1). \<open>_id\<close> is immutable: an update that would give
  the matched document another \<open>_id\<close> is a write error.
\<close>

definition updateOne ::
  "env \<Rightarrow> collection \<Rightarrow> doc \<Rightarrow> doc \<Rightarrow> store \<Rightarrow> (error + nat) \<times> store" where
  "updateOne e c flt upd s =
     (let s' = record_call (UpdateOne c flt upd) s in
      case store_error e of
        Some detail \<Rightarrow> (Inl (StoreError detail), s')
      | None \<Rightarrow>
          (case List.find (matches flt) (docs c s) of
             None \<Rightarrow> (Inr 0, s')
           | Some d \<Rightarrow>
               if map_of (apply_set upd d) ''_id'' \<noteq> map_of d ''_id''
               then (Inl (StoreError ''would modify the immutable field _id''), s')
               else (Inr 1, set_docs c (replace_first (matches flt) (apply_set upd) (docs c s)) s')))"

text \<open>\<open>deleteOne\<close> removes the first document that matches and reports how many it removed.\<close>

definition deleteOne ::
  "env \<Rightarrow> collection \<Rightarrow> doc \<Rightarrow> store \<Rightarrow> (error + nat) \<times> store" where
  "deleteOne e c flt s =
     (let s' = record_call (DeleteOne c flt) s in
      case store_error e of
        Some detail \<Rightarrow> (Inl (StoreError detail), s')
      | None \<Rightarrow>
          (case List.find (matches flt) (docs c s) of
             None \<Rightarrow> (Inr 0, s')
           | Some d \<Rightarrow> (Inr 1, set_docs c (remove_first (matches flt) (docs c s)) s')))"

section \<open>Requests and responses\<close>

text \<open>
  Of a request the handlers read the \<open>Authorization\<close> header (absent or a string), the
  \<open>:id\<close> path parameter and the body that \<open>express.json()\<close> parsed, a JSON object
  (a body that is a JSON array is not covered).
\<close>

record request =
  authorization :: "string option"
  params_id :: string
  body :: doc

datatype payload = Json jval | Text string

record response =
  status :: nat
  payload :: payload

definition json :: "nat \<Rightarrow> jval \<Rightarrow> response" where
  "json st v = \<lparr>status = st, payload = Json (toJSON v)\<rparr>"

definition message :: "string \<Rightarrow> jval" where
  "message m = JObj [(''message'', JStr m)]"

section \<open>The authentication middleware\<close>

definition startsWith :: "string \<Rightarrow> string \<Rightarrow> bool" where
  "startsWith s p = (take (length p) s = p)"

text \<open>\<open>s.split(c)\<close>: the pieces of \<open>s\<close> between the occurrences of \<open>c\<close>, empty ones included.\<close>

fun js_split :: "char \<Rightarrow> string \<Rightarrow> string list" where
  "js_split c [] = [[]]"
| "js_split c (x # xs) =
     (if x = c then [] # js_split c xs
      else (case js_split c xs of
              [] \<Rightarrow> [[x]]
            | w # ws \<Rightarrow> (x # w) # ws))"

text \<open>
  \<open>authenticateFirebaseToken\<close> either answers the request itself (\<open>Inl\<close>) or hands
  the decoded token to the handler (\<open>Inr\<close>, the call of \<open>next()\<close> with \<open>req.user\<close>
  set). \<open>verifyIdToken\<close> is the Firebase verifier, an input of the model; \<open>None\<close>
  is a rejected credential. A missing piece after the scheme would reach the verifier
  as \<open>undefined\<close>, which it rejects.
\<close>

definition authenticateFirebaseToken :: "env \<Rightarrow> request \<Rightarrow> response + decoded_token" where
  "authenticateFirebaseToken e req =
     (case authorization req of
        None \<Rightarrow> Inl (json 401 (message ''Unauthorized''))
      | Some authHeader \<Rightarrow>
          if authHeader = [] then Inl (json 401 (message ''Unauthorized''))
          else if \<not> startsWith authHeader ''Bearer ''
          then Inl (json 401 (message ''Unauthorized''))
          else (case js_split CHR '' '' authHeader of
                  _ # idToken # _ \<Rightarrow>
                    (case verifyIdToken e idToken of
                       Some decodedToken \<Rightarrow> Inr decodedToken
                     | None \<Rightarrow> Inl (json 403 (message ''Invalid token'')))
                | _ \<Rightarrow> Inl (json 403 (message ''Invalid token''))))"

section \<open>The route handlers of the authenticated application\<close>

text \<open>
  One definition per route of the Firebase-authenticated entry point, in the order of
  the source. A handler takes the decoded token the middleware attached and returns the
  response together with the store after its call. Every handler is one \<open>try\<close> block
  with a single \<open>catch\<close>: whatever is thrown inside, by \<open>new ObjectId\<close> or by the
  store, gets the response of that \<open>catch\<close>.
\<close>

definition post_notes :: "env \<Rightarrow> decoded_token \<Rightarrow> request \<Rightarrow> store \<Rightarrow> response \<times> store" where
  "post_notes e user req s =
     (let note = AList.update ''userId'' (JStr (uid user)) (body req) in
      case insertOne e Notes note s of
        (Inr result, s') \<Rightarrow> (json 201 result, s')
      | (Inl err, s') \<Rightarrow> (json 500 (message ''Failed to create note''), s'))"

definition get_notes :: "env \<Rightarrow> decoded_token \<Rightarrow> request \<Rightarrow> store \<Rightarrow> response \<times> store" where
  "get_notes e user req s =
     (case find_toArray e Notes [(''userId'', JStr (uid user))] s of
        (Inr notes, s') \<Rightarrow> (json 200 (JArr (map JObj notes)), s')
      | (Inl err, s') \<Rightarrow> (json 500 (message ''Failed to fetch notes''), s'))"

definition get_notes_id :: "env \<Rightarrow> decoded_token \<Rightarrow> request \<Rightarrow> store \<Rightarrow> response \<times> store" where
  "get_notes_id e user req s =
     (case new_ObjectId (params_id req) of
        Inl err \<Rightarrow> (json 400 (message ''Invalid note ID''), s)
      | Inr oid \<Rightarrow>
          (case findOne e Notes [(''_id'', JOid oid), (''userId'', JStr (uid user))] s of
             (Inr None, s') \<Rightarrow> (json 404 (message ''Note not found''), s')
           | (Inr (Some note), s') \<Rightarrow> (json 200 (JObj note), s')
           | (Inl err, s') \<Rightarrow> (json 400 (message ''Invalid note ID''), s')))"

definition put_notes_id :: "env \<Rightarrow> decoded_token \<Rightarrow> request \<Rightarrow> store \<Rightarrow> response \<times> store" where
  "put_notes_id e user req s =
     (let update = body req in
      case new_ObjectId (params_id req) of
        Inl err \<Rightarrow> (json 500 (message ''Failed to update note''), s)
      | Inr oid \<Rightarrow>
          (case updateOne e Notes [(''_id'', JOid oid), (''userId'', JStr (uid user))] update s of
             (Inr matchedCount, s') \<Rightarrow>
               if matchedCount = 0 then (json 404 (message ''Note not found''), s')
               else (json 200 (message ''Note updated successfully''), s')
           | (Inl err, s') \<Rightarrow> (json 500 (message ''Failed to update note''), s')))"

definition delete_notes_id :: "env \<Rightarrow> decoded_token \<Rightarrow> request \<Rightarrow> store \<Rightarrow> response \<times> store" where
  "delete_notes_id e user req s =
     (case new_ObjectId (params_id req) of
        Inl err \<Rightarrow> (json 500 (message ''Failed to delete note''), s)
      | Inr oid \<Rightarrow>
          (case deleteOne e Notes [(''_id'', JOid oid), (''userId'', JStr (uid user))] s of
             (Inr deletedCount, s') \<Rightarrow>
               if deletedCount = 0 then (json 404 (message ''Note not found''), s')
               else (json 200 (message ''Note deleted''), s')
           | (Inl err, s') \<Rightarrow> (json 500 (message ''Failed to delete note''), s')))"

definition post_folders :: "env \<Rightarrow> decoded_token \<Rightarrow> request \<Rightarrow> store \<Rightarrow> response \<times> store" where
  "post_folders e user req s =
     (let folder = AList.update ''userId'' (JStr (uid user)) (body req) in
      case insertOne e Folders folder s of
        (Inr result, s') \<Rightarrow> (json 201 result, s')
      | (Inl err, s') \<Rightarrow> (json 500 (message ''Failed to create folder''), s'))"

definition get_folders :: "env \<Rightarrow> decoded_token \<Rightarrow> request \<Rightarrow> store \<Rightarrow> response \<times> store" where
  "get_folders e user req s =
     (case find_toArray e Folders [(''userId'', JStr (uid user))] s of
        (Inr folders, s') \<Rightarrow> (json 200 (JArr (map JObj folders)), s')
      | (Inl err, s') \<Rightarrow> (json 500 (message ''Failed to fetch folders''), s'))"

definition get_folders_id :: "env \<Rightarrow> decoded_token \<Rightarrow> request \<Rightarrow> store \<Rightarrow> response \<times> store" where
  "get_folders_id e user req s =
     (case new_ObjectId (params_id req) of
        Inl err \<Rightarrow> (json 400 (message ''Invalid folder ID''), s)
      | Inr oid \<Rightarrow>
          (case findOne e Folders [(''_id'', JOid oid), (''userId'', JStr (uid user))] s of
             (Inr None, s') \<Rightarrow> (json 404 (message ''Folder not found''), s')
           | (Inr (Some folder), s') \<Rightarrow> (json 200 (JObj folder), s')
           | (Inl err, s') \<Rightarrow> (json 400 (message ''Invalid folder ID''), s')))"

definition delete_folders_id :: "env \<Rightarrow> decoded_token \<Rightarrow> request \<Rightarrow> store \<Rightarrow> response \<times> store" where
  "delete_folders_id e user req s =
     (case new_ObjectId (params_id req) of
        Inl err \<Rightarrow> (json 500 (message ''Failed to delete folder''), s)
      | Inr oid \<Rightarrow>
          (case deleteOne e Folders [(''_id'', JOid oid), (''userId'', JStr (uid user))] s of
             (Inr deletedCount, s') \<Rightarrow>
               if deletedCount = 0 then (json 404 (message ''Folder not found''), s')
               else (json 200 (message ''Folder deleted''), s')
           | (Inl err, s') \<Rightarrow> (json 500 (message ''Failed to delete folder''), s')))"

text \<open>
  The routing table: \<open>GET /\<close> is open, every other route runs the middleware first and
  its handler only when the middleware called \<open>next()\<close>.
\<close>

datatype route =
    Root
  | PostNotes | GetNotes | GetNoteById | PutNoteById | DeleteNoteById
  | PostFolders | GetFolders | GetFolderById | DeleteFolderById

definition protected ::
  "(env \<Rightarrow> decoded_token \<Rightarrow> request \<Rightarrow> store \<Rightarrow> response \<times> store) \<Rightarrow>
   env \<Rightarrow> request \<Rightarrow> store \<Rightarrow> response \<times> store" where
  "protected handler e req s =
     (case authenticateFirebaseToken e req of
        Inl res \<Rightarrow> (res, s)
      | Inr user \<Rightarrow> handler e user req s)"

fun app :: "env \<Rightarrow> route \<Rightarrow> request \<Rightarrow> store \<Rightarrow> response \<times> store" where
  "app e Root req s = (\<lparr>status = 200, payload = Text ''Notes API is running...''\<rparr>, s)"
| "app e PostNotes req s = protected post_notes e req s"
| "app e GetNotes req s = protected get_notes e req s"
| "app e GetNoteById req s = protected get_notes_id e req s"
| "app e PutNoteById req s = protected put_notes_id e req s"
| "app e DeleteNoteById req s = protected delete_notes_id e req s"
| "app e PostFolders req s = protected post_folders e req s"
| "app e GetFolders req s = protected get_folders e req s"
| "app e GetFolderById req s = protected get_folders_id e req s"
| "app e DeleteFolderById req s = protected delete_folders_id e req s"

section \<open>The route handlers of \<open>src/index.js\<close>\<close>

text \<open>
  The entry point \<open>src/index.js\<close> registers four routes and no middleware in front of
  any of them: a handler gets the request as it came.
\<close>

definition index_get_notes :: "env \<Rightarrow> request \<Rightarrow> store \<Rightarrow> response \<times> store" where
  "index_get_notes e req s =
     (case find_toArray e Notes [] s of
        (Inr notes, s') \<Rightarrow> (json 200 (JArr (map JObj notes)), s')
      | (Inl err, s') \<Rightarrow> (json 500 (message ''Failed to fetch notes''), s'))"

definition index_get_notes_id :: "env \<Rightarrow> request \<Rightarrow> store \<Rightarrow> response \<times> store" where
  "index_get_notes_id e req s =
     (case new_ObjectId (params_id req) of
        Inl err \<Rightarrow> (json 400 (message ''Invalid note ID''), s)
      | Inr oid \<Rightarrow>
          (case findOne e Notes [(''_id'', JOid oid)] s of
             (Inr None, s') \<Rightarrow> (json 404 (message ''Note not found''), s')
           | (Inr (Some note), s') \<Rightarrow> (json 200 (JObj note), s')
           | (Inl err, s') \<Rightarrow> (json 400 (message ''Invalid note ID''), s')))"

definition index_get_folders :: "env \<Rightarrow> request \<Rightarrow> store \<Rightarrow> response \<times> store" where
  "index_get_folders e req s =
     (case find_toArray e Folders [] s of
        (Inr folders, s') \<Rightarrow> (json 200 (JArr (map JObj folders)), s')
      | (Inl err, s') \<Rightarrow> (json 500 (message ''Failed to fetch folders''), s'))"

datatype index_route = IndexRoot | IndexGetNotes | IndexGetNoteById | IndexGetFolders

fun index_app :: "env \<Rightarrow> index_route \<Rightarrow> request \<Rightarrow> store \<Rightarrow> response \<times> store" where
  "index_app e IndexRoot req s = (\<lparr>status = 200, payload = Text ''Notes API is running...''\<rparr>, s)"
| "index_app e IndexGetNotes req s = index_get_notes e req s"
| "index_app e IndexGetNoteById req s = index_get_notes_id e req s"
| "index_app e IndexGetFolders req s = index_get_folders e req s"

section \<open>Vocabulary of the properties\<close>

text \<open>
  \<open>has_id oid d\<close>: the condition \<open>{_id: oid}\<close> selects \<open>d\<close>. \<open>owner d\<close>: the
  subject identifier in the \<open>userId\<close> field of \<open>d\<close>, when the field holds one.
\<close>

definition has_id :: "ObjectId \<Rightarrow> doc \<Rightarrow> bool" where
  "has_id oid d = matches [(''_id'', JOid oid)] d"

definition owner :: "doc \<Rightarrow> string option" where
  "owner d = (case map_of d ''userId'' of Some (JStr u) \<Rightarrow> Some u | _ \<Rightarrow> None)"

text \<open>
  What the store guarantees of the \<open>_id\<close> fields of a collection: every document has
  one, it is not an array, and no two documents share a value. The empty collection has
  the property and every route keeps it (\<open>app_ids_ok\<close> below).
\<close>

definition ids_ok :: "doc list \<Rightarrow> bool" where
  "ids_ok ds =
     (distinct (map (\<lambda>d. map_of d ''_id'') ds) \<and>
      list_all (\<lambda>d. case map_of d ''_id'' of None \<Rightarrow> False | Some v \<Rightarrow> \<not> is_array v) ds)"

text \<open>The collection a route works on, and the routes of one kind on a collection.\<close>

fun collection_of :: "route \<Rightarrow> collection" where
  "collection_of PostFolders = Folders"
| "collection_of GetFolders = Folders"
| "collection_of GetFolderById = Folders"
| "collection_of DeleteFolderById = Folders"
| "collection_of r = Notes"

fun create_route :: "collection \<Rightarrow> route" where
  "create_route Notes = PostNotes"
| "create_route Folders = PostFolders"

fun get_route :: "collection \<Rightarrow> route" where
  "get_route Notes = GetNoteById"
| "get_route Folders = GetFolderById"

fun delete_route :: "collection \<Rightarrow> route" where
  "delete_route Notes = DeleteNoteById"
| "delete_route Folders = DeleteFolderById"

section \<open>Example inputs\<close>

text \<open>
  A verifier that knows two credentials, a store that answers, and a few requests and
  stores on which the theorems below are run.
\<close>

definition example_verifier :: "string \<Rightarrow> decoded_token option" where
  "example_verifier t =
     (if t = ''tok1'' then Some \<lparr>uid = ''u1''\<rparr>
      else if t = ''tok2'' then Some \<lparr>uid = ''u2''\<rparr>
      else None)"

definition example_env :: env where
  "example_env =
     \<lparr>verifyIdToken = example_verifier, store_error = None,
      createPk = ObjectId ''65f0a1b2c3d4e5f601234567''\<rparr>"

definition failing_env :: env where
  "failing_env = example_env\<lparr>store_error := Some ''connection reset''\<rparr>"

definition empty_store :: store where
  "empty_store = \<lparr>notesCollection = [], folderCollection = [], calls = []\<rparr>"

definition example_request :: request where
  "example_request =
     \<lparr>authorization = Some ''Bearer tok1'', params_id = ''65F0A1B2C3D4E5F601234567'',
      body = [(''title'', JStr ''A'')]\<rparr>"

definition note_of_u1 :: doc where
  "note_of_u1 =
     [(''title'', JStr ''A''), (''userId'', JStr ''u1''),
      (''_id'', JOid (ObjectId ''65f0a1b2c3d4e5f601234567''))]"

definition store_with_note :: store where
  "store_with_note = \<lparr>notesCollection = [note_of_u1], folderCollection = [], calls = []\<rparr>"

definition request_of_u2 :: request where
  "request_of_u2 = example_request\<lparr>authorization := Some ''Bearer tok2''\<rparr>"

text \<open>Bodies in which the client names an owner or an identifier of its own.\<close>

definition request_with_owner :: request where
  "request_with_owner =
     example_request\<lparr>body := [(''userId'', JStr ''u2''), (''title'', JStr ''A'')]\<rparr>"

definition request_with_id :: request where
  "request_with_id = example_request\<lparr>body := [(''_id'', JStr ''n1''), (''title'', JStr ''A'')]\<rparr>"

definition request_with_hex_id :: request where
  "request_with_hex_id =
     \<lparr>authorization = Some ''Bearer tok1'', params_id = ''65f0a1b2c3d4e5f601234567'',
      body = [(''_id'', JStr ''65f0a1b2c3d4e5f601234567''), (''title'', JStr ''A'')]\<rparr>"

definition request_for_created :: request where
  "request_for_created = example_request\<lparr>params_id := ''65f0a1b2c3d4e5f601234567''\<rparr>"



section \<open>Authentication\<close>

lemma js_split_first: "c \<notin> set p \<Longrightarrow> js_split c (p @ c # ys) = p # js_split c ys"
  by (induction p) (auto split: list.splits)

lemma js_split_head: "\<exists>rest. js_split c ys = takeWhile (\<lambda>x. x \<noteq> c) ys # rest"
  by (induction ys) (auto split: list.splits)

lemma startsWith_Bearer:
  assumes "startsWith h ''Bearer ''"
  shows "h = ''Bearer'' @ CHR '' '' # drop 7 h"
proof -
  from assms have "take (length ''Bearer '') h = ''Bearer ''"
    unfolding startsWith_def .
  moreover have "length ''Bearer '' = 7" by simp
  ultimately have "take 7 h = ''Bearer ''" by metis
  then have "h = ''Bearer '' @ drop 7 h" by (metis append_take_drop_id)
  then show ?thesis by simp
qed

text \<open>
  After the scheme check the credential handed to the verifier is the piece between
  the first space and the next one.
\<close>

lemma js_split_Bearer:
  assumes "startsWith h ''Bearer ''"
  shows "\<exists>rest. js_split CHR '' '' h =
           ''Bearer'' # takeWhile (\<lambda>x. x \<noteq> CHR '' '') (drop 7 h) # rest"
proof -
  have "js_split CHR '' '' (''Bearer'' @ CHR '' '' # drop 7 h) =
          ''Bearer'' # js_split CHR '' '' (drop 7 h)"
    by (rule js_split_first) simp
  with startsWith_Bearer [OF assms]
  have "js_split CHR '' '' h = ''Bearer'' # js_split CHR '' '' (drop 7 h)"
    by simp
  with js_split_head [of "CHR '' ''" "drop 7 h"] show ?thesis by auto
qed

lemma authenticate_Bearer:
  assumes "authorization req = Some h" and "startsWith h ''Bearer ''"
  shows "authenticateFirebaseToken e req =
           (case verifyIdToken e (takeWhile (\<lambda>x. x \<noteq> CHR '' '') (drop 7 h)) of
              Some decodedToken \<Rightarrow> Inr decodedToken
            | None \<Rightarrow> Inl (json 403 (message ''Invalid token'')))"
proof -
  from js_split_Bearer [OF assms(2)] obtain rest where
    "js_split CHR '' '' h = ''Bearer'' # takeWhile (\<lambda>x. x \<noteq> CHR '' '') (drop 7 h) # rest"
    by blast
  moreover from assms(2) have "h \<noteq> []" by (auto simp: startsWith_def)
  ultimately show ?thesis using assms
    by (simp add: authenticateFirebaseToken_def)
qed

lemma authenticate_no_Bearer:
  assumes "authorization req = None \<or>
           (\<exists>h. authorization req = Some h \<and> \<not> startsWith h ''Bearer '')"
  shows "authenticateFirebaseToken e req = Inl (json 401 (message ''Unauthorized''))"
  using assms by (auto simp: authenticateFirebaseToken_def)

lemma app_rejected:
  assumes "r \<noteq> Root" and "authenticateFirebaseToken e req = Inl res"
  shows "app e r req s = (res, s)"
  using assms by (cases r) (simp_all add: protected_def)

text \<open>
  C4. On every protected route a request without an \<open>Authorization\<close> header, or with
  one that does not start with \<open>Bearer \<close>, is answered 401, and a request whose
  credential the verifier rejects is answered 403. In both cases the store comes back
  as it was: no collection changed and no call was recorded.
\<close>

theorem auth_rejection_before_store:
  assumes "r \<noteq> Root"
  shows "((authorization req = None \<or>
           (\<exists>h. authorization req = Some h \<and> \<not> startsWith h ''Bearer ''))
            \<longrightarrow> app e r req s = (json 401 (message ''Unauthorized''), s))
       \<and> (\<forall>h. authorization req = Some h \<and> startsWith h ''Bearer ''
                \<and> verifyIdToken e (takeWhile (\<lambda>x. x \<noteq> CHR '' '') (drop 7 h)) = None
            \<longrightarrow> app e r req s = (json 403 (message ''Invalid token''), s))"
proof (intro conjI impI allI)
  assume "authorization req = None \<or>
          (\<exists>h. authorization req = Some h \<and> \<not> startsWith h ''Bearer '')"
  then have "authenticateFirebaseToken e req = Inl (json 401 (message ''Unauthorized''))"
    by (rule authenticate_no_Bearer)
  with assms show "app e r req s = (json 401 (message ''Unauthorized''), s)"
    by (rule app_rejected)
next
  fix h
  assume h: "authorization req = Some h \<and> startsWith h ''Bearer ''
     \<and> verifyIdToken e (takeWhile (\<lambda>x. x \<noteq> CHR '' '') (drop 7 h)) = None"
  then have "authenticateFirebaseToken e req = Inl (json 403 (message ''Invalid token''))"
    by (simp add: authenticate_Bearer [of req h e])
  with assms show "app e r req s = (json 403 (message ''Invalid token''), s)"
    by (rule app_rejected)
qed

theorem auth_rejection_before_store_witness:
  "GetNotes \<noteq> Root \<and> DeleteNoteById \<noteq> Root \<and> PostFolders \<noteq> Root
   \<and> authorization (example_request\<lparr>authorization := None\<rparr>) = None
   \<and> app example_env PostFolders (example_request\<lparr>authorization := None\<rparr>) empty_store
       = (json 401 (message ''Unauthorized''), empty_store)
   \<and> authorization (example_request\<lparr>authorization := Some ''Basic dG9rMQ==''\<rparr>) = Some ''Basic dG9rMQ==''
   \<and> \<not> startsWith ''Basic dG9rMQ=='' ''Bearer ''
   \<and> app example_env GetNotes (example_request\<lparr>authorization := Some ''Basic dG9rMQ==''\<rparr>) empty_store
       = (json 401 (message ''Unauthorized''), empty_store)
   \<and> startsWith ''Bearer expired'' ''Bearer ''
   \<and> verifyIdToken example_env ''expired'' = None
   \<and> app example_env DeleteNoteById (example_request\<lparr>authorization := Some ''Bearer expired''\<rparr>) empty_store
       = (json 403 (message ''Invalid token''), empty_store)"
  using auth_rejection_before_store
          [of PostFolders "example_request\<lparr>authorization := None\<rparr>" example_env empty_store]
        auth_rejection_before_store
          [of GetNotes "example_request\<lparr>authorization := Some ''Basic dG9rMQ==''\<rparr>"
              example_env empty_store]
        auth_rejection_before_store
          [of DeleteNoteById "example_request\<lparr>authorization := Some ''Bearer expired''\<rparr>"
              example_env empty_store]
  by (simp add: startsWith_def example_env_def example_verifier_def)

section \<open>The store calls\<close>

lemma docs_record_call [simp]: "docs c (record_call x s) = docs c s"
  by (simp add: docs_def record_call_def split: collection.splits)

lemma docs_set_docs [simp]: "docs c (set_docs c' ds s) = (if c = c' then ds else docs c s)"
  by (simp add: docs_def set_docs_def split: collection.splits)

lemma calls_set_docs [simp]: "calls (set_docs c ds s) = calls s"
  by (simp add: set_docs_def split: collection.splits)

lemma calls_record_call [simp]: "calls (record_call x s) = calls s @ [x]"
  by (simp add: record_call_def)

lemma status_json [simp]: "status (json st v) = st"
  by (simp add: json_def)

lemma payload_json [simp]: "payload (json st v) = Json (toJSON v)"
  by (simp add: json_def)

lemma matches_Nil [simp]: "matches [] d"
  by (simp add: matches_def)

text \<open>What a successful \<open>insertOne\<close> did, and that a failed one stored nothing.\<close>

lemma insertOne_Inr:
  assumes "insertOne e c d s = (Inr r, s')"
  shows "\<exists>i d'. r = JObj [(''acknowledged'', JBool True), (''insertedId'', i)]
          \<and> s' = set_docs c (docs c s @ [d']) (record_call (InsertOne c d) s)
          \<and> map_of d' = (map_of d)(''_id'' \<mapsto> i)
          \<and> \<not> is_array i
          \<and> \<not> list_ex (\<lambda>x. map_of x ''_id'' = Some i) (docs c s)
          \<and> store_error e = None
          \<and> i = (case map_of d ''_id'' of
                    None \<Rightarrow> JOid (createPk e)
                  | Some JNull \<Rightarrow> JOid (createPk e)
                  | Some v \<Rightarrow> v)"
proof (cases "map_of d ''_id'' = None \<or> map_of d ''_id'' = Some JNull")
  case True
  with assms show ?thesis
    by (intro exI [of _ "JOid (createPk e)"]
              exI [of _ "AList.update ''_id'' (JOid (createPk e)) d"])
       (auto simp: insertOne_def Let_def AList.update_conv' split: option.splits if_splits)
next
  case False
  then obtain v where v: "map_of d ''_id'' = Some v" "v \<noteq> JNull" by auto
  with assms show ?thesis
    by (intro exI [of _ v] exI [of _ d])
       (auto simp: insertOne_def Let_def map_upd_triv
             split: option.splits jval.splits if_splits)
qed

lemma insertOne_Inl:
  assumes "insertOne e c d s = (Inl err, s')"
  shows "s' = record_call (InsertOne c d) s"
  using assms
  by (auto simp: insertOne_def Let_def split: option.splits jval.splits if_splits)

lemma insertOne_generated:
  assumes ins: "insertOne e c (AList.update ''userId'' (JStr u) b) s = (Inr r, s')"
    and noid: "map_of b ''_id'' = None \<or> map_of b ''_id'' = Some JNull"
  shows "\<exists>d. r = JObj [(''acknowledged'', JBool True), (''insertedId'', JOid (createPk e))]
           \<and> docs c s' = docs c s @ [d]
           \<and> map_of d = (map_of b)(''userId'' \<mapsto> JStr u, ''_id'' \<mapsto> JOid (createPk e))
           \<and> (\<forall>x \<in> set (docs c s). map_of x ''_id'' \<noteq> Some (JOid (createPk e)))"
proof -
  from insertOne_Inr [OF ins] obtain i d where
    r: "r = JObj [(''acknowledged'', JBool True), (''insertedId'', i)]"
    and s': "s' = set_docs c (docs c s @ [d])
                   (record_call (InsertOne c (AList.update ''userId'' (JStr u) b)) s)"
    and d: "map_of d = (map_of (AList.update ''userId'' (JStr u) b))(''_id'' \<mapsto> i)"
    and fresh: "\<not> list_ex (\<lambda>x. map_of x ''_id'' = Some i) (docs c s)"
    and i: "i = (case map_of (AList.update ''userId'' (JStr u) b) ''_id'' of
                   None \<Rightarrow> JOid (createPk e) | Some JNull \<Rightarrow> JOid (createPk e) | Some v \<Rightarrow> v)"
    by blast
  have "map_of (AList.update ''userId'' (JStr u) b) ''_id'' = map_of b ''_id''"
    by (simp add: AList.update_conv')
  with i noid have i': "i = JOid (createPk e)" by auto
  from d have "map_of d = (map_of b)(''userId'' \<mapsto> JStr u, ''_id'' \<mapsto> i)"
    by (simp add: AList.update_conv')
  with r s' fresh i' show ?thesis by (auto simp: list_ex_iff)
qed

lemma insertOne_owner:
  assumes "insertOne e c (AList.update ''userId'' (JStr u) b) s = (Inr r, s')"
  shows "\<exists>d. docs c s' = docs c s @ [d] \<and> map_of d ''userId'' = Some (JStr u)"
proof -
  from insertOne_Inr [OF assms] obtain i d' where
    s': "s' = set_docs c (docs c s @ [d'])
                (record_call (InsertOne c (AList.update ''userId'' (JStr u) b)) s)"
    and d': "map_of d' = (map_of (AList.update ''userId'' (JStr u) b))(''_id'' \<mapsto> i)"
    by blast
  from d' have "map_of d' ''userId'' = Some (JStr u)"
    by (simp add: AList.update_conv')
  with s' show ?thesis by simp
qed

section \<open>Identifiers and their string form\<close>

lemma hexLower_lower: "isLowerHexChar c \<Longrightarrow> hexLower c = c"
  by (auto simp: isLowerHexChar_def hexLower_def)

lemma lower_is_hex: "isLowerHexChar c \<Longrightarrow> isHexChar c"
  by (auto simp: isLowerHexChar_def isHexChar_def)

lemma hexLower_is_lower: "isHexChar c \<Longrightarrow> isLowerHexChar (hexLower c)"
  by (auto simp: isLowerHexChar_def isHexChar_def hexLower_def)

lemma new_ObjectId_toHexString:
  assumes "oid_ok i"
  shows "new_ObjectId (toHexString i) = Inr i"
proof -
  from assms have len: "length (toHexString i) = 24"
    and low: "list_all isLowerHexChar (toHexString i)"
    by (simp_all add: oid_ok_def)
  from low have "list_all isHexChar (toHexString i)"
    by (auto simp: list_all_iff lower_is_hex)
  moreover from low have "map hexLower (toHexString i) = toHexString i"
    by (simp add: list_all_iff map_idI hexLower_lower)
  ultimately show ?thesis using len by (simp add: new_ObjectId_def)
qed

lemma new_ObjectId_ok: "new_ObjectId s = Inr i \<Longrightarrow> oid_ok i"
  by (auto simp: new_ObjectId_def oid_ok_def list_all_iff hexLower_is_lower split: if_splits)

section \<open>Filters, owners and unique identifiers\<close>

lemma matches_scoped:
  "matches [(''_id'', JOid oid), (''userId'', JStr u)] d =
     (has_id oid d \<and>
      (case map_of d ''userId'' of None \<Rightarrow> False | Some fv \<Rightarrow> field_matches fv (JStr u)))"
  by (simp add: matches_def has_id_def)

lemma owner_matches:
  assumes "owner d = Some u"
  shows "(case map_of d ''userId'' of None \<Rightarrow> False | Some fv \<Rightarrow> field_matches fv (JStr u'))
           = (u = u')"
  using assms by (auto simp: owner_def field_matches_def split: option.splits jval.splits)


text \<open>The scoped filter selects nothing among documents that belong to somebody else.\<close>

lemma other_owner_no_match:
  assumes "\<forall>d \<in> set ds. has_id oid d \<longrightarrow> (\<exists>u. owner d = Some u \<and> u \<noteq> me)"
  shows "List.find (matches [(''_id'', JOid oid), (''userId'', JStr me)]) ds = None"
proof -
  have "\<not> matches [(''_id'', JOid oid), (''userId'', JStr me)] d" if "d \<in> set ds" for d
  proof
    assume m: "matches [(''_id'', JOid oid), (''userId'', JStr me)] d"
    then have "has_id oid d" by (simp add: matches_scoped)
    with assms that obtain u where u: "owner d = Some u" "u \<noteq> me" by blast
    from m have "case map_of d ''userId'' of None \<Rightarrow> False
                 | Some fv \<Rightarrow> field_matches fv (JStr me)"
      by (simp add: matches_scoped)
    with owner_matches [OF u(1), of me] u(2) show False by simp
  qed
  then show ?thesis by (simp add: List.find_None_iff)
qed

lemma absent_no_match:
  assumes "\<forall>d \<in> set ds. \<not> has_id oid d"
  shows "List.find (matches [(''_id'', JOid oid), (''userId'', JStr me)]) ds = None"
  using assms by (auto simp: List.find_None_iff matches_scoped)

lemma has_id_iff:
  assumes "ids_ok ds" and "d \<in> set ds"
  shows "has_id oid d \<longleftrightarrow> map_of d ''_id'' = Some (JOid oid)"
proof -
  from assms obtain v where v: "map_of d ''_id'' = Some v" "\<not> is_array v"
    by (auto simp: ids_ok_def list_all_iff split: option.splits)
  then show ?thesis
    by (cases v) (auto simp: has_id_def matches_def field_matches_def is_array_def)
qed

lemma ids_ok_same_id:
  assumes "ids_ok ds" and "d \<in> set ds" and "d' \<in> set ds"
    and "map_of d ''_id'' = map_of d' ''_id''"
  shows "d = d'"
proof -
  from assms(1) have "inj_on (\<lambda>d. map_of d ''_id'') (set ds)"
    by (simp add: ids_ok_def distinct_map)
  with assms(2-4) show ?thesis by (auto dest: inj_onD)
qed


lemma find_Some_P: "List.find P xs = Some d \<Longrightarrow> P d \<and> d \<in> set xs"
  by (induction xs) (auto split: if_splits)

lemma find_append_last:
  "\<forall>x \<in> set xs. \<not> P x \<Longrightarrow> P y \<Longrightarrow> List.find P (xs @ [y]) = Some y"
  by (induction xs) auto

text \<open>With unique identifiers a filter that fixes \<open>_id\<close> selects at most one document.\<close>

lemma find_unique:
  assumes "ids_ok ds" and "d \<in> set ds" and "P d"
    and "\<forall>x \<in> set ds. P x \<longrightarrow> has_id oid x" and "has_id oid d"
  shows "List.find P ds = Some d"
proof -
  from assms(2,3) obtain d' where f: "List.find P ds = Some d'"
    by (cases "List.find P ds") (auto simp: List.find_None_iff)
  then have d': "d' \<in> set ds" "P d'" by (auto dest: find_Some_P)
  with assms(4) have "has_id oid d'" by blast
  with has_id_iff [OF assms(1) d'(1)] have "map_of d' ''_id'' = Some (JOid oid)" by simp
  moreover from has_id_iff [OF assms(1,2)] assms(5)
  have "map_of d ''_id'' = Some (JOid oid)" by simp
  ultimately have "d = d'" using ids_ok_same_id [OF assms(1,2) d'(1)] by simp
  with f show ?thesis by simp
qed


lemma remove_first_find:
  "List.find P xs = Some d \<Longrightarrow> remove_first P xs = remove1 d xs"
  by (induction xs) (auto split: if_splits dest: find_Some_P)

lemma replace_first_map:
  assumes "List.find P xs = Some d" and "g (f d) = g d"
  shows "map g (replace_first P f xs) = map g xs"
  using assms by (induction xs) (auto split: if_splits)


section \<open>Every route keeps the identifiers unique\<close>

lemma ids_ok_map:
  "ids_ok ds =
     (distinct (map (\<lambda>d. map_of d ''_id'') ds) \<and>
      list_all (\<lambda>v. case v of None \<Rightarrow> False | Some v \<Rightarrow> \<not> is_array v)
        (map (\<lambda>d. map_of d ''_id'') ds))"
  by (simp add: ids_ok_def list_all_iff)

lemma ids_ok_cong:
  "map (\<lambda>d. map_of d ''_id'') ds = map (\<lambda>d. map_of d ''_id'') ds' \<Longrightarrow> ids_ok ds = ids_ok ds'"
  by (simp only: ids_ok_map)

lemma ids_ok_append:
  assumes "ids_ok ds" and "map_of d ''_id'' = Some i" and "\<not> is_array i"
    and "\<not> list_ex (\<lambda>x. map_of x ''_id'' = Some i) ds"
  shows "ids_ok (ds @ [d])"
  using assms by (auto simp: ids_ok_def list_ex_iff)

lemma ids_ok_remove1:
  assumes ok: "ids_ok ds"
  shows "ids_ok (remove1 d ds)"
proof -
  from ok have "distinct ds" and "inj_on (\<lambda>d. map_of d ''_id'') (set ds)"
    by (simp_all add: ids_ok_def distinct_map)
  moreover have sub: "set (remove1 d ds) \<subseteq> set ds" by (rule set_remove1_subset)
  ultimately have "distinct (map (\<lambda>d. map_of d ''_id'') (remove1 d ds))"
    by (auto simp: distinct_map intro: inj_on_subset)
  moreover from ok sub
  have "list_all (\<lambda>d. case map_of d ''_id'' of None \<Rightarrow> False | Some v \<Rightarrow> \<not> is_array v)
          (remove1 d ds)"
    by (auto simp: ids_ok_def list_all_iff)
  ultimately show ?thesis by (simp add: ids_ok_def)
qed

lemma insertOne_ids_ok:
  assumes "ids_ok (docs c' s)"
  shows "ids_ok (docs c' (snd (insertOne e c d s)))"
proof (cases "insertOne e c d s")
  case (Pair r s')
  show ?thesis
  proof (cases r)
    case (Inl err)
    with Pair insertOne_Inl [of e c d s err s'] assms show ?thesis by simp
  next
    case (Inr v)
    with Pair insertOne_Inr [of e c d s v s'] obtain i d' where
      s': "s' = set_docs c (docs c s @ [d']) (record_call (InsertOne c d) s)"
      and d': "map_of d' = (map_of d)(''_id'' \<mapsto> i)"
      and i: "\<not> is_array i" "\<not> list_ex (\<lambda>x. map_of x ''_id'' = Some i) (docs c s)"
      by blast
    from d' have "map_of d' ''_id'' = Some i" by simp
    with assms i have "c' = c \<Longrightarrow> ids_ok (docs c s @ [d'])"
      by (auto intro: ids_ok_append)
    with Pair s' assms show ?thesis by simp
  qed
qed

lemma updateOne_ids_ok:
  assumes "ids_ok (docs c' s)"
  shows "ids_ok (docs c' (snd (updateOne e c flt upd s)))"
proof (cases "store_error e = None \<and>
              (\<exists>d. List.find (matches flt) (docs c s) = Some d
                 \<and> map_of (apply_set upd d) ''_id'' = map_of d ''_id'')")
  case True
  then obtain d where d: "List.find (matches flt) (docs c s) = Some d"
    "map_of (apply_set upd d) ''_id'' = map_of d ''_id''" by blast
  from replace_first_map
         [of "matches flt" "docs c s" d "\<lambda>d. map_of d ''_id''" "apply_set upd", OF d]
  have "ids_ok (replace_first (matches flt) (apply_set upd) (docs c s)) = ids_ok (docs c s)"
    by (rule ids_ok_cong)
  with True d assms show ?thesis
    by (auto simp: updateOne_def Let_def)
next
  case False
  with assms show ?thesis
    by (auto simp: updateOne_def Let_def split: option.splits)
qed

lemma deleteOne_ids_ok:
  assumes "ids_ok (docs c' s)"
  shows "ids_ok (docs c' (snd (deleteOne e c flt s)))"
  using assms
  by (auto simp: deleteOne_def Let_def remove_first_find ids_ok_remove1 split: option.splits)

lemma findOne_docs [simp]: "docs c' (snd (findOne e c flt s)) = docs c' s"
  by (simp add: findOne_def Let_def split: option.splits)

lemma find_toArray_docs [simp]: "docs c' (snd (find_toArray e c flt s)) = docs c' s"
  by (simp add: find_toArray_def Let_def split: option.splits)

text \<open>The store each handler leaves behind is the store its one call leaves behind.\<close>

lemma handlers_snd:
  "snd (post_notes e user req s) =
     snd (insertOne e Notes (AList.update ''userId'' (JStr (uid user)) (body req)) s)"
  "snd (post_folders e user req s) =
     snd (insertOne e Folders (AList.update ''userId'' (JStr (uid user)) (body req)) s)"
  "snd (get_notes e user req s) = snd (find_toArray e Notes [(''userId'', JStr (uid user))] s)"
  "snd (get_folders e user req s) =
     snd (find_toArray e Folders [(''userId'', JStr (uid user))] s)"
  by (simp_all add: post_notes_def post_folders_def get_notes_def get_folders_def Let_def
        split: prod.splits sum.splits)

lemma handlers_by_id_snd:
  "snd (get_notes_id e user req s) =
     (case new_ObjectId (params_id req) of
        Inl err \<Rightarrow> s
      | Inr oid \<Rightarrow> snd (findOne e Notes [(''_id'', JOid oid), (''userId'', JStr (uid user))] s))"
  "snd (get_folders_id e user req s) =
     (case new_ObjectId (params_id req) of
        Inl err \<Rightarrow> s
      | Inr oid \<Rightarrow> snd (findOne e Folders [(''_id'', JOid oid), (''userId'', JStr (uid user))] s))"
  "snd (put_notes_id e user req s) =
     (case new_ObjectId (params_id req) of
        Inl err \<Rightarrow> s
      | Inr oid \<Rightarrow>
          snd (updateOne e Notes [(''_id'', JOid oid), (''userId'', JStr (uid user))] (body req) s))"
  "snd (delete_notes_id e user req s) =
     (case new_ObjectId (params_id req) of
        Inl err \<Rightarrow> s
      | Inr oid \<Rightarrow> snd (deleteOne e Notes [(''_id'', JOid oid), (''userId'', JStr (uid user))] s))"
  "snd (delete_folders_id e user req s) =
     (case new_ObjectId (params_id req) of
        Inl err \<Rightarrow> s
      | Inr oid \<Rightarrow>
          snd (deleteOne e Folders [(''_id'', JOid oid), (''userId'', JStr (uid user))] s))"
  by (simp_all add: get_notes_id_def get_folders_id_def put_notes_id_def delete_notes_id_def
        delete_folders_id_def Let_def split: prod.splits sum.splits option.splits)

lemma app_ids_ok:
  assumes "ids_ok (docs c s)"
  shows "ids_ok (docs c (snd (app e r req s)))"
proof (cases "authenticateFirebaseToken e req")
  case (Inl res)
  with assms show ?thesis by (cases r) (simp_all add: protected_def)
next
  case (Inr user)
  with assms show ?thesis
    by (cases r)
       (simp_all add: protected_def handlers_snd handlers_by_id_snd insertOne_ids_ok
          updateOne_ids_ok deleteOne_ids_ok split: sum.splits)
qed

lemma ids_ok_empty_store: "ids_ok (docs c empty_store)"
  by (simp add: ids_ok_def docs_def empty_store_def split: collection.splits)

section \<open>Ownership scoping of reads, updates and deletes\<close>

lemma no_match_response:
  assumes auth: "authenticateFirebaseToken e req = Inr user"
    and auth0: "authenticateFirebaseToken e req0 = Inr user"
    and oid: "new_ObjectId (params_id req) = Inr oid"
    and oid0: "new_ObjectId (params_id req0) = Inr oid0"
    and r: "r \<in> {GetNoteById, PutNoteById, DeleteNoteById, GetFolderById, DeleteFolderById}"
    and s: "List.find (matches [(''_id'', JOid oid), (''userId'', JStr (uid user))])
              (docs (collection_of r) s) = None"
    and s0: "List.find (matches [(''_id'', JOid oid0), (''userId'', JStr (uid user))])
               (docs (collection_of r) s0) = None"
  shows "fst (app e r req s) = fst (app e r req0 s0)
       \<and> docs c (snd (app e r req s)) = docs c s
       \<and> (store_error e = None \<longrightarrow> status (fst (app e r req s)) = 404)"
proof -
  from r consider "r = GetNoteById" | "r = PutNoteById" | "r = DeleteNoteById"
    | "r = GetFolderById" | "r = DeleteFolderById" by auto
  then show ?thesis
  proof cases
    case 1
    with auth auth0 oid oid0 s s0 show ?thesis
      by (simp add: protected_def get_notes_id_def findOne_def Let_def split: option.splits)
  next
    case 2
    with auth auth0 oid oid0 s s0 show ?thesis
      by (simp add: protected_def put_notes_id_def updateOne_def Let_def split: option.splits)
  next
    case 3
    with auth auth0 oid oid0 s s0 show ?thesis
      by (simp add: protected_def delete_notes_id_def deleteOne_def Let_def split: option.splits)
  next
    case 4
    with auth auth0 oid oid0 s s0 show ?thesis
      by (simp add: protected_def get_folders_id_def findOne_def Let_def split: option.splits)
  next
    case 5
    with auth auth0 oid oid0 s s0 show ?thesis
      by (simp add: protected_def delete_folders_id_def deleteOne_def Let_def split: option.splits)
  qed
qed

text \<open>
  C1. A read, update or delete by identifier, issued with a verified identity, on a
  collection where every document with that identifier belongs to somebody else, is
  answered exactly as a request of the same identity for an identifier that no document
  has (in the same store or in any other): the two responses are equal, no collection
  changes, and when the store answers the status is 404.
\<close>

theorem non_owner_indistinguishable_from_absent:
  assumes auth: "authenticateFirebaseToken e req = Inr user"
    and auth0: "authenticateFirebaseToken e req0 = Inr user"
    and oid: "new_ObjectId (params_id req) = Inr oid"
    and oid0: "new_ObjectId (params_id req0) = Inr oid0"
    and r: "r \<in> {GetNoteById, PutNoteById, DeleteNoteById, GetFolderById, DeleteFolderById}"
    and other: "\<forall>d \<in> set (docs (collection_of r) s).
                  has_id oid d \<longrightarrow> (\<exists>u. owner d = Some u \<and> u \<noteq> uid user)"
    and absent: "\<forall>d \<in> set (docs (collection_of r) s0). \<not> has_id oid0 d"
  shows "fst (app e r req s) = fst (app e r req0 s0)
       \<and> (\<forall>c. docs c (snd (app e r req s)) = docs c s)
       \<and> (store_error e = None \<longrightarrow> status (fst (app e r req s)) = 404)"
proof -
  note s = other_owner_no_match [OF other]
  note s0 = absent_no_match [OF absent, of "uid user"]
  from no_match_response [OF auth auth0 oid oid0 r s s0] show ?thesis by blast
qed

theorem non_owner_indistinguishable_from_absent_witness:
  "authenticateFirebaseToken example_env request_of_u2 = Inr \<lparr>uid = ''u2''\<rparr>
   \<and> new_ObjectId (params_id request_of_u2) = Inr (ObjectId ''65f0a1b2c3d4e5f601234567'')
   \<and> note_of_u1 \<in> set (docs Notes store_with_note)
   \<and> has_id (ObjectId ''65f0a1b2c3d4e5f601234567'') note_of_u1
   \<and> owner note_of_u1 = Some ''u1''
   \<and> fst (app example_env PutNoteById request_of_u2 store_with_note)
        = fst (app example_env PutNoteById request_of_u2 empty_store)
   \<and> docs Notes (snd (app example_env PutNoteById request_of_u2 store_with_note))
        = docs Notes store_with_note
   \<and> status (fst (app example_env PutNoteById request_of_u2 store_with_note)) = 404"
proof -
  let ?oid = "ObjectId ''65f0a1b2c3d4e5f601234567''"
  have auth: "authenticateFirebaseToken example_env request_of_u2 = Inr \<lparr>uid = ''u2''\<rparr>"
    by code_simp
  have oid: "new_ObjectId (params_id request_of_u2) = Inr ?oid"
    by code_simp
  have own: "owner note_of_u1 = Some ''u1''" by code_simp
  have hid: "has_id ?oid note_of_u1" by code_simp
  have mem: "note_of_u1 \<in> set (docs Notes store_with_note)"
    by (simp add: docs_def store_with_note_def)
  have r: "PutNoteById \<in> {GetNoteById, PutNoteById, DeleteNoteById, GetFolderById, DeleteFolderById}"
    by simp
  have other: "\<forall>d \<in> set (docs (collection_of PutNoteById) store_with_note).
      has_id ?oid d \<longrightarrow> (\<exists>u. owner d = Some u \<and> u \<noteq> uid \<lparr>uid = ''u2''\<rparr>)"
    using own by (simp add: docs_def store_with_note_def)
  have absent: "\<forall>d \<in> set (docs (collection_of PutNoteById) empty_store). \<not> has_id ?oid d"
    by (simp add: docs_def empty_store_def)
  have up: "store_error example_env = None" by (simp add: example_env_def)
  from non_owner_indistinguishable_from_absent [OF auth auth oid oid r other absent]
    up auth oid own hid mem
  show ?thesis by blast
qed

section \<open>Creation\<close>

lemma post_notes_201:
  assumes "post_notes e user req s = (res, s')" and "status res = 201"
  shows "\<exists>r. insertOne e Notes (AList.update ''userId'' (JStr (uid user)) (body req)) s
                = (Inr r, s')
             \<and> res = json 201 r"
  using assms by (auto simp: post_notes_def Let_def split: prod.splits sum.splits)

lemma post_folders_201:
  assumes "post_folders e user req s = (res, s')" and "status res = 201"
  shows "\<exists>r. insertOne e Folders (AList.update ''userId'' (JStr (uid user)) (body req)) s
                = (Inr r, s')
             \<and> res = json 201 r"
  using assms by (auto simp: post_folders_def Let_def split: prod.splits sum.splits)

lemma create_route_201:
  assumes "authenticateFirebaseToken e req = Inr user"
    and "app e (create_route c) req s = (res, s')" and "status res = 201"
  shows "\<exists>r. insertOne e c (AList.update ''userId'' (JStr (uid user)) (body req)) s = (Inr r, s')
             \<and> res = json 201 r"
proof (cases c)
  case Notes
  with assms have "post_notes e user req s = (res, s')" by (simp add: protected_def)
  from post_notes_201 [OF this assms(3)] Notes show ?thesis by simp
next
  case Folders
  with assms have "post_folders e user req s = (res, s')" by (simp add: protected_def)
  from post_folders_201 [OF this assms(3)] Folders show ?thesis by simp
qed

text \<open>
  The outcome of \<open>insertOne\<close> in full: with \<open>i\<close> the identifier the document gets,
  the call succeeds exactly when the store answers, \<open>i\<close> is not an array and no
  document of the collection has it; otherwise it throws and stores nothing.
\<close>

lemma insertOne_result:
  assumes i: "i = (case map_of d ''_id'' of
                     None \<Rightarrow> JOid (createPk e)
                   | Some JNull \<Rightarrow> JOid (createPk e)
                   | Some v \<Rightarrow> v)"
  shows "(store_error e = None \<and> \<not> is_array i
            \<and> (\<forall>x \<in> set (docs c s). map_of x ''_id'' \<noteq> Some i)
          \<longrightarrow> (\<exists>d'. insertOne e c d s =
                   (Inr (JObj [(''acknowledged'', JBool True), (''insertedId'', i)]),
                    set_docs c (docs c s @ [d']) (record_call (InsertOne c d) s))
                 \<and> map_of d' = (map_of d)(''_id'' \<mapsto> i)))
       \<and> (\<not> (store_error e = None \<and> \<not> is_array i
               \<and> (\<forall>x \<in> set (docs c s). map_of x ''_id'' \<noteq> Some i))
          \<longrightarrow> (\<exists>err. insertOne e c d s = (Inl err, record_call (InsertOne c d) s)))"
proof (cases "insertOne e c d s")
  case (Pair r s')
  show ?thesis
  proof (cases r)
    case (Inl err)
    with Pair have run: "insertOne e c d s = (Inl err, s')" by simp
    from insertOne_Inl [OF run] have s': "s' = record_call (InsertOne c d) s" .
    have "\<not> (store_error e = None \<and> \<not> is_array i
               \<and> (\<forall>x \<in> set (docs c s). map_of x ''_id'' \<noteq> Some i))"
    proof
      assume ok: "store_error e = None \<and> \<not> is_array i
               \<and> (\<forall>x \<in> set (docs c s). map_of x ''_id'' \<noteq> Some i)"
      then have fresh: "\<not> list_ex (\<lambda>x. map_of x ''_id'' = Some i) (docs c s)"
        by (simp add: list_ex_iff)
      from i have "\<exists>d'. (case map_of d ''_id'' of
                   None \<Rightarrow> (JOid (createPk e), AList.update ''_id'' (JOid (createPk e)) d)
                 | Some JNull \<Rightarrow> (JOid (createPk e), AList.update ''_id'' (JOid (createPk e)) d)
                 | Some v \<Rightarrow> (v, d)) = (i, d')"
        by (simp split: option.splits jval.splits)
      then obtain d' where pair: "(case map_of d ''_id'' of
                   None \<Rightarrow> (JOid (createPk e), AList.update ''_id'' (JOid (createPk e)) d)
                 | Some JNull \<Rightarrow> (JOid (createPk e), AList.update ''_id'' (JOid (createPk e)) d)
                 | Some v \<Rightarrow> (v, d)) = (i, d')" by blast
      from ok fresh have "\<exists>v w. insertOne e c d s = (Inr v, w)"
        by (simp add: insertOne_def Let_def pair)
      with run show False by simp
    qed
    with run s' show ?thesis by simp
  next
    case (Inr v)
    with Pair have run: "insertOne e c d s = (Inr v, s')" by simp
    from insertOne_Inr [OF run] i obtain d' where
      "v = JObj [(''acknowledged'', JBool True), (''insertedId'', i)]"
      "s' = set_docs c (docs c s @ [d']) (record_call (InsertOne c d) s)"
      "map_of d' = (map_of d)(''_id'' \<mapsto> i)"
      "\<not> is_array i"
      "\<not> list_ex (\<lambda>x. map_of x ''_id'' = Some i) (docs c s)"
      "store_error e = None"
      by auto
    with run show ?thesis by (auto simp: list_ex_iff)
  qed
qed

text \<open>The same for the document a create route inserts, the body with \<open>userId\<close> set.\<close>

lemma stamped_insert_result:
  assumes i: "i = (case map_of b ''_id'' of
                     None \<Rightarrow> JOid (createPk e)
                   | Some JNull \<Rightarrow> JOid (createPk e)
                   | Some v \<Rightarrow> v)"
  shows "(store_error e = None \<and> \<not> is_array i
            \<and> (\<forall>x \<in> set (docs c s). map_of x ''_id'' \<noteq> Some i)
          \<longrightarrow> (\<exists>d. insertOne e c (AList.update ''userId'' (JStr u) b) s =
                   (Inr (JObj [(''acknowledged'', JBool True), (''insertedId'', i)]),
                    set_docs c (docs c s @ [d])
                      (record_call (InsertOne c (AList.update ''userId'' (JStr u) b)) s))
                 \<and> map_of d = (map_of b)(''userId'' \<mapsto> JStr u, ''_id'' \<mapsto> i)))
       \<and> (\<not> (store_error e = None \<and> \<not> is_array i
               \<and> (\<forall>x \<in> set (docs c s). map_of x ''_id'' \<noteq> Some i))
          \<longrightarrow> (\<exists>err. insertOne e c (AList.update ''userId'' (JStr u) b) s =
                   (Inl err, record_call (InsertOne c (AList.update ''userId'' (JStr u) b)) s)))"
proof -
  let ?d0 = "AList.update ''userId'' (JStr u) b"
  have "map_of ?d0 ''_id'' = map_of b ''_id''"
    by (simp add: AList.update_conv')
  with i have i0: "i = (case map_of ?d0 ''_id'' of
                          None \<Rightarrow> JOid (createPk e)
                        | Some JNull \<Rightarrow> JOid (createPk e)
                        | Some v \<Rightarrow> v)" by simp
  have d0: "map_of ?d0 = (map_of b)(''userId'' \<mapsto> JStr u)"
    by (simp add: AList.update_conv')
  note ins = insertOne_result [OF i0, of c s]
  show ?thesis
  proof (intro conjI impI)
    assume ok: "store_error e = None \<and> \<not> is_array i
            \<and> (\<forall>x \<in> set (docs c s). map_of x ''_id'' \<noteq> Some i)"
    with ins obtain d where
      run: "insertOne e c ?d0 s =
              (Inr (JObj [(''acknowledged'', JBool True), (''insertedId'', i)]),
               set_docs c (docs c s @ [d]) (record_call (InsertOne c ?d0) s))"
      and d: "map_of d = (map_of ?d0)(''_id'' \<mapsto> i)" by blast
    from d d0 have "map_of d = (map_of b)(''userId'' \<mapsto> JStr u, ''_id'' \<mapsto> i)"
      by simp
    with run show "\<exists>d. insertOne e c ?d0 s =
                   (Inr (JObj [(''acknowledged'', JBool True), (''insertedId'', i)]),
                    set_docs c (docs c s @ [d]) (record_call (InsertOne c ?d0) s))
                 \<and> map_of d = (map_of b)(''userId'' \<mapsto> JStr u, ''_id'' \<mapsto> i)"
      by blast
  next
    assume "\<not> (store_error e = None \<and> \<not> is_array i
               \<and> (\<forall>x \<in> set (docs c s). map_of x ''_id'' \<noteq> Some i))"
    with ins show "\<exists>err. insertOne e c ?d0 s = (Inl err, record_call (InsertOne c ?d0) s)"
      by blast
  qed
qed

text \<open>
  C2. An authenticated \<open>POST /notes\<close> or \<open>POST /folders\<close> makes one store call, an
  \<open>insertOne\<close> of a document whose \<open>userId\<close> is the \<open>uid\<close> of the verified token,
  whatever the request body holds, a \<open>userId\<close> of its own included. The answer is 201
  exactly when the store answers and the identifier the document gets is free and not an
  array; then the collection has grown by one document, which has that \<open>userId\<close> and
  otherwise the fields of the body. Any other answer is 500 and stores nothing. The other
  collection never changes.
\<close>

theorem create_stamps_verified_owner:
  assumes auth: "authenticateFirebaseToken e req = Inr user"
    and run: "app e (create_route c) req s = (res, s')"
    and i: "i = (case map_of (body req) ''_id'' of
                   None \<Rightarrow> JOid (createPk e)
                 | Some JNull \<Rightarrow> JOid (createPk e)
                 | Some v \<Rightarrow> v)"
  shows "(status res = 201 \<longleftrightarrow>
            store_error e = None \<and> \<not> is_array i
            \<and> (\<forall>x \<in> set (docs c s). map_of x ''_id'' \<noteq> Some i))
       \<and> (status res = 201 \<longrightarrow>
            (\<exists>d. docs c s' = docs c s @ [d]
                \<and> map_of d ''userId'' = Some (JStr (uid user))
                \<and> (\<forall>k. k \<noteq> ''userId'' \<and> k \<noteq> ''_id'' \<longrightarrow> map_of d k = map_of (body req) k)))
       \<and> (status res \<noteq> 201 \<longrightarrow> status res = 500 \<and> docs c s' = docs c s)
       \<and> (\<forall>c'. c' \<noteq> c \<longrightarrow> docs c' s' = docs c' s)
       \<and> (\<exists>d0. calls s' = calls s @ [InsertOne c d0]
              \<and> map_of d0 ''userId'' = Some (JStr (uid user)))"
proof -
  let ?d0 = "AList.update ''userId'' (JStr (uid user)) (body req)"
  have handler: "app e (create_route c) req s =
      (case insertOne e c ?d0 s of
         (Inr result, s') \<Rightarrow> (json 201 result, s')
       | (Inl err, s') \<Rightarrow>
           (json 500 (message (case c of Notes \<Rightarrow> ''Failed to create note''
                               | Folders \<Rightarrow> ''Failed to create folder'')), s'))"
    using auth
    by (cases c)
       (auto simp: protected_def post_notes_def post_folders_def Let_def
             split: prod.splits sum.splits)
  note ins = stamped_insert_result [OF i, where c = c and s = s and u = "uid user"]
  have stamped: "map_of ?d0 ''userId'' = Some (JStr (uid user))"
    by (simp add: AList.update_conv')
  show ?thesis
  proof (cases "store_error e = None \<and> \<not> is_array i
            \<and> (\<forall>x \<in> set (docs c s). map_of x ''_id'' \<noteq> Some i)")
    case True
    with ins obtain d where
      io: "insertOne e c ?d0 s =
             (Inr (JObj [(''acknowledged'', JBool True), (''insertedId'', i)]),
              set_docs c (docs c s @ [d]) (record_call (InsertOne c ?d0) s))"
      and d: "map_of d = (map_of (body req))(''userId'' \<mapsto> JStr (uid user), ''_id'' \<mapsto> i)"
      by blast
    from handler io run
    have "res = json 201 (JObj [(''acknowledged'', JBool True), (''insertedId'', i)])"
      and "s' = set_docs c (docs c s @ [d]) (record_call (InsertOne c ?d0) s)"
      by simp_all
    with True d stamped show ?thesis by simp
  next
    case False
    with ins obtain err where
      io: "insertOne e c ?d0 s = (Inl err, record_call (InsertOne c ?d0) s)"
      by blast
    from handler io run
    have "res = json 500 (message (case c of Notes \<Rightarrow> ''Failed to create note''
                                   | Folders \<Rightarrow> ''Failed to create folder''))"
      and "s' = record_call (InsertOne c ?d0) s"
      by simp_all
    with False stamped show ?thesis by simp
  qed
qed

theorem create_stamps_verified_owner_witness:
  "authenticateFirebaseToken example_env request_with_owner = Inr \<lparr>uid = ''u1''\<rparr>
   \<and> map_of (body request_with_owner) ''userId'' = Some (JStr ''u2'')
   \<and> status (fst (app example_env (create_route Notes) request_with_owner empty_store)) = 201
   \<and> (\<exists>d. docs Notes (snd (app example_env (create_route Notes) request_with_owner empty_store))
             = docs Notes empty_store @ [d]
          \<and> map_of d ''userId'' = Some (JStr ''u1''))
   \<and> status (fst (app example_env (create_route Folders) request_with_owner empty_store)) = 201
   \<and> (\<exists>d. docs Folders (snd (app example_env (create_route Folders) request_with_owner empty_store))
             = docs Folders empty_store @ [d]
          \<and> map_of d ''userId'' = Some (JStr ''u1''))
   \<and> status (fst (app failing_env (create_route Notes) request_with_owner store_with_note)) = 500
   \<and> docs Notes (snd (app failing_env (create_route Notes) request_with_owner store_with_note))
       = docs Notes store_with_note
   \<and> notesCollection (snd (app example_env PostNotes request_with_owner empty_store))
       = [[(''userId'', JStr ''u1''), (''title'', JStr ''A''),
           (''_id'', JOid (ObjectId ''65f0a1b2c3d4e5f601234567''))]]
   \<and> folderCollection (snd (app example_env PostFolders request_with_owner empty_store))
       = [[(''userId'', JStr ''u1''), (''title'', JStr ''A''),
           (''_id'', JOid (ObjectId ''65f0a1b2c3d4e5f601234567''))]]"
proof -
  have stored_note: "notesCollection (snd (app example_env PostNotes request_with_owner empty_store))
       = [[(''userId'', JStr ''u1''), (''title'', JStr ''A''),
           (''_id'', JOid (ObjectId ''65f0a1b2c3d4e5f601234567''))]]"
    by code_simp
  have stored_folder: "folderCollection (snd (app example_env PostFolders request_with_owner empty_store))
       = [[(''userId'', JStr ''u1''), (''title'', JStr ''A''),
           (''_id'', JOid (ObjectId ''65f0a1b2c3d4e5f601234567''))]]"
    by code_simp
  let ?i = "case map_of (body request_with_owner) ''_id'' of
              None \<Rightarrow> JOid (createPk example_env)
            | Some JNull \<Rightarrow> JOid (createPk example_env)
            | Some v \<Rightarrow> v"
  let ?j = "case map_of (body request_with_owner) ''_id'' of
              None \<Rightarrow> JOid (createPk failing_env)
            | Some JNull \<Rightarrow> JOid (createPk failing_env)
            | Some v \<Rightarrow> v"
  have auth: "authenticateFirebaseToken example_env request_with_owner = Inr \<lparr>uid = ''u1''\<rparr>"
    by code_simp
  have authf: "authenticateFirebaseToken failing_env request_with_owner = Inr \<lparr>uid = ''u1''\<rparr>"
    by code_simp
  have body: "map_of (body request_with_owner) ''userId'' = Some (JStr ''u2'')"
    by code_simp
  have up: "store_error example_env = None" by (simp add: example_env_def)
  have down: "store_error failing_env \<noteq> None" by (simp add: failing_env_def)
  have arr: "\<not> is_array ?i" by code_simp
  have free: "\<forall>x \<in> set (docs c empty_store). map_of x ''_id'' \<noteq> Some ?i" for c
    by (cases c) (simp_all add: docs_def empty_store_def)
  have run: "app e (create_route c) request_with_owner s =
      (fst (app e (create_route c) request_with_owner s),
       snd (app e (create_route c) request_with_owner s))" for e c s
    by simp
  note on_notes = create_stamps_verified_owner [OF auth run [of example_env Notes empty_store] refl]
  note on_folders = create_stamps_verified_owner [OF auth run [of example_env Folders empty_store] refl]
  note on_failure = create_stamps_verified_owner [OF authf run [of failing_env Notes store_with_note] refl]
  from on_notes up arr free [of Notes]
  have n1: "status (fst (app example_env (create_route Notes) request_with_owner empty_store)) = 201"
    by blast
  with on_notes
  have n2: "\<exists>d. docs Notes (snd (app example_env (create_route Notes) request_with_owner empty_store))
             = docs Notes empty_store @ [d]
          \<and> map_of d ''userId'' = Some (JStr (uid \<lparr>uid = ''u1''\<rparr>))"
    by blast
  from on_folders up arr free [of Folders]
  have f1: "status (fst (app example_env (create_route Folders) request_with_owner empty_store)) = 201"
    by blast
  with on_folders
  have f2: "\<exists>d. docs Folders (snd (app example_env (create_route Folders) request_with_owner empty_store))
             = docs Folders empty_store @ [d]
          \<and> map_of d ''userId'' = Some (JStr (uid \<lparr>uid = ''u1''\<rparr>))"
    by blast
  from on_failure down
  have x1: "status (fst (app failing_env (create_route Notes) request_with_owner store_with_note)) \<noteq> 201"
    by blast
  with on_failure
  have x2: "status (fst (app failing_env (create_route Notes) request_with_owner store_with_note)) = 500
      \<and> docs Notes (snd (app failing_env (create_route Notes) request_with_owner store_with_note))
          = docs Notes store_with_note"
    by blast
  from n2 have n3: "\<exists>d. docs Notes (snd (app example_env (create_route Notes) request_with_owner empty_store))
             = docs Notes empty_store @ [d]
          \<and> map_of d ''userId'' = Some (JStr ''u1'')" by simp
  from f2 have f3: "\<exists>d. docs Folders (snd (app example_env (create_route Folders) request_with_owner empty_store))
             = docs Folders empty_store @ [d]
          \<and> map_of d ''userId'' = Some (JStr ''u1'')" by simp
  from auth body n1 n3 f1 f3 x2 stored_note stored_folder show ?thesis by blast
qed

text \<open>
  A body that carries an \<open>_id\<close> decides the identifier of the document, on both create
  routes: the store keeps the client's value, here the string \<open>n1\<close>, and acknowledges
  it, while the identifier the driver would have generated is not used.
\<close>

theorem client_chosen_id_counterexample:
  "map_of (body request_with_id) ''_id'' = Some (JStr ''n1'')
   \<and> fst (app example_env PostNotes request_with_id empty_store)
       = \<lparr>status = 201,
          payload = Json (JObj [(''acknowledged'', JBool True), (''insertedId'', JStr ''n1'')])\<rparr>
   \<and> notesCollection (snd (app example_env PostNotes request_with_id empty_store))
       = [[(''_id'', JStr ''n1''), (''title'', JStr ''A''), (''userId'', JStr ''u1'')]]
   \<and> fst (app example_env PostFolders request_with_id empty_store)
       = \<lparr>status = 201,
          payload = Json (JObj [(''acknowledged'', JBool True), (''insertedId'', JStr ''n1'')])\<rparr>
   \<and> folderCollection (snd (app example_env PostFolders request_with_id empty_store))
       = [[(''_id'', JStr ''n1''), (''title'', JStr ''A''), (''userId'', JStr ''u1'')]]
   \<and> JStr ''n1'' \<noteq> JOid (createPk example_env)"
  by code_simp

text \<open>
  C7, amended. Let \<open>i\<close> be the \<open>_id\<close> of the request body when the body carries one
  that is not null, and otherwise the identifier the driver generates, which no part of
  the request determines. An authenticated create answers 201 exactly when the store
  answers and \<open>i\<close> is free in the collection and not an array; the document it then
  stores has \<open>_id\<close> \<open>i\<close>, and the acknowledgement returns \<open>i\<close> in its JSON form. For
  an \<open>ObjectId\<close> that form is its 24-digit lower-case hexadecimal string, and the
  string parses back to the same identifier: so it is for every identifier a path
  parameter can denote, and for the generated one.
\<close>

theorem created_id_is_generated:
  assumes auth: "authenticateFirebaseToken e req = Inr user"
    and run: "app e (create_route c) req s = (res, s')"
    and i: "i = (case map_of (body req) ''_id'' of
                   None \<Rightarrow> JOid (createPk e)
                 | Some JNull \<Rightarrow> JOid (createPk e)
                 | Some v \<Rightarrow> v)"
  shows "(map_of (body req) ''_id'' = None \<or> map_of (body req) ''_id'' = Some JNull
            \<longrightarrow> i = JOid (createPk e))
       \<and> (\<forall>v. map_of (body req) ''_id'' = Some v \<and> v \<noteq> JNull \<longrightarrow> i = v)
       \<and> (status res = 201 \<longleftrightarrow>
            store_error e = None \<and> \<not> is_array i
            \<and> (\<forall>x \<in> set (docs c s). map_of x ''_id'' \<noteq> Some i))
       \<and> (status res = 201 \<longrightarrow>
            (\<exists>d. docs c s' = docs c s @ [d] \<and> map_of d ''_id'' = Some i)
            \<and> payload res = Json (JObj [(''acknowledged'', JBool True),
                                         (''insertedId'', toJSON i)]))
       \<and> (\<forall>h j. new_ObjectId h = Inr j \<longrightarrow>
              toJSON (JOid j) = JStr (toHexString j) \<and> new_ObjectId (toHexString j) = Inr j)
       \<and> (oid_ok (createPk e) \<longrightarrow>
              toJSON (JOid (createPk e)) = JStr (toHexString (createPk e))
              \<and> new_ObjectId (toHexString (createPk e)) = Inr (createPk e))"
proof -
  have branch: "(map_of (body req) ''_id'' = None \<or> map_of (body req) ''_id'' = Some JNull
            \<longrightarrow> i = JOid (createPk e))
       \<and> (\<forall>v. map_of (body req) ''_id'' = Some v \<and> v \<noteq> JNull \<longrightarrow> i = v)"
    using i by (auto split: jval.splits)
  have parse: "\<forall>h j. new_ObjectId h = Inr j \<longrightarrow>
      toJSON (JOid j) = JStr (toHexString j) \<and> new_ObjectId (toHexString j) = Inr j"
    by (auto dest: new_ObjectId_ok intro: new_ObjectId_toHexString)
  have gen: "oid_ok (createPk e) \<longrightarrow>
      toJSON (JOid (createPk e)) = JStr (toHexString (createPk e))
      \<and> new_ObjectId (toHexString (createPk e)) = Inr (createPk e)"
    by (simp add: new_ObjectId_toHexString)
  have stored: "(status res = 201 \<longleftrightarrow>
            store_error e = None \<and> \<not> is_array i
            \<and> (\<forall>x \<in> set (docs c s). map_of x ''_id'' \<noteq> Some i))
       \<and> (status res = 201 \<longrightarrow>
            (\<exists>d. docs c s' = docs c s @ [d] \<and> map_of d ''_id'' = Some i)
            \<and> payload res = Json (JObj [(''acknowledged'', JBool True),
                                         (''insertedId'', toJSON i)]))"
  proof -
    let ?d0 = "AList.update ''userId'' (JStr (uid user)) (body req)"
    have handler: "app e (create_route c) req s =
        (case insertOne e c ?d0 s of
           (Inr result, s') \<Rightarrow> (json 201 result, s')
         | (Inl err, s') \<Rightarrow>
             (json 500 (message (case c of Notes \<Rightarrow> ''Failed to create note''
                                 | Folders \<Rightarrow> ''Failed to create folder'')), s'))"
      using auth
      by (cases c)
         (auto simp: protected_def post_notes_def post_folders_def Let_def
               split: prod.splits sum.splits)
    note ins = stamped_insert_result [OF i, where c = c and s = s and u = "uid user"]
    show ?thesis
    proof (cases "store_error e = None \<and> \<not> is_array i
              \<and> (\<forall>x \<in> set (docs c s). map_of x ''_id'' \<noteq> Some i)")
      case True
      with ins obtain d where
        io: "insertOne e c ?d0 s =
               (Inr (JObj [(''acknowledged'', JBool True), (''insertedId'', i)]),
                set_docs c (docs c s @ [d]) (record_call (InsertOne c ?d0) s))"
        and d: "map_of d = (map_of (body req))(''userId'' \<mapsto> JStr (uid user), ''_id'' \<mapsto> i)"
        by blast
      from handler io run
      have "res = json 201 (JObj [(''acknowledged'', JBool True), (''insertedId'', i)])"
        and "s' = set_docs c (docs c s @ [d]) (record_call (InsertOne c ?d0) s)"
        by simp_all
      with True d show ?thesis by simp
    next
      case False
      with ins obtain err where
        io: "insertOne e c ?d0 s = (Inl err, record_call (InsertOne c ?d0) s)"
        by blast
      from handler io run
      have "res = json 500 (message (case c of Notes \<Rightarrow> ''Failed to create note''
                                     | Folders \<Rightarrow> ''Failed to create folder''))"
        by simp
      with False show ?thesis by simp
    qed
  qed
  from branch stored parse gen show ?thesis by blast
qed

theorem created_id_is_generated_witness:
  "authenticateFirebaseToken example_env example_request = Inr \<lparr>uid = ''u1''\<rparr>
   \<and> map_of (body example_request) ''_id'' = None
   \<and> status (fst (app example_env (create_route Notes) example_request empty_store)) = 201
   \<and> (\<exists>d. docs Notes (snd (app example_env (create_route Notes) example_request empty_store))
             = docs Notes empty_store @ [d]
          \<and> map_of d ''_id'' = Some (JOid (createPk example_env)))
   \<and> payload (fst (app example_env (create_route Notes) example_request empty_store))
       = Json (JObj [(''acknowledged'', JBool True),
                     (''insertedId'', JStr ''65f0a1b2c3d4e5f601234567'')])
   \<and> oid_ok (createPk example_env)
   \<and> new_ObjectId ''65f0a1b2c3d4e5f601234567'' = Inr (createPk example_env)
   \<and> map_of (body request_with_id) ''_id'' = Some (JStr ''n1'')
   \<and> status (fst (app example_env (create_route Folders) request_with_id empty_store)) = 201
   \<and> (\<exists>d. docs Folders (snd (app example_env (create_route Folders) request_with_id empty_store))
             = docs Folders empty_store @ [d]
          \<and> map_of d ''_id'' = Some (JStr ''n1''))
   \<and> payload (fst (app example_env (create_route Folders) request_with_id empty_store))
       = Json (JObj [(''acknowledged'', JBool True), (''insertedId'', JStr ''n1'')])
   \<and> notesCollection (snd (app example_env PostNotes example_request empty_store))
       = [[(''title'', JStr ''A''), (''userId'', JStr ''u1''),
           (''_id'', JOid (ObjectId ''65f0a1b2c3d4e5f601234567''))]]
   \<and> folderCollection (snd (app example_env PostFolders request_with_id empty_store))
       = [[(''_id'', JStr ''n1''), (''title'', JStr ''A''), (''userId'', JStr ''u1'')]]"
proof -
  have stored_note: "notesCollection (snd (app example_env PostNotes example_request empty_store))
       = [[(''title'', JStr ''A''), (''userId'', JStr ''u1''),
           (''_id'', JOid (ObjectId ''65f0a1b2c3d4e5f601234567''))]]"
    by code_simp
  have stored_folder: "folderCollection (snd (app example_env PostFolders request_with_id empty_store))
       = [[(''_id'', JStr ''n1''), (''title'', JStr ''A''), (''userId'', JStr ''u1'')]]"
    by code_simp
  let ?i = "case map_of (body example_request) ''_id'' of
              None \<Rightarrow> JOid (createPk example_env)
            | Some JNull \<Rightarrow> JOid (createPk example_env)
            | Some v \<Rightarrow> v"
  let ?j = "case map_of (body request_with_id) ''_id'' of
              None \<Rightarrow> JOid (createPk example_env)
            | Some JNull \<Rightarrow> JOid (createPk example_env)
            | Some v \<Rightarrow> v"
  have auth: "authenticateFirebaseToken example_env example_request = Inr \<lparr>uid = ''u1''\<rparr>"
    by code_simp
  have auth': "authenticateFirebaseToken example_env request_with_id = Inr \<lparr>uid = ''u1''\<rparr>"
    by code_simp
  have noid: "map_of (body example_request) ''_id'' = None" by code_simp
  have hasid: "map_of (body request_with_id) ''_id'' = Some (JStr ''n1'')" by code_simp
  have up: "store_error example_env = None" by (simp add: example_env_def)
  have pk: "oid_ok (createPk example_env)" by code_simp
  have hex: "toHexString (createPk example_env) = ''65f0a1b2c3d4e5f601234567''" by code_simp
  have arr: "\<not> is_array ?i" "\<not> is_array ?j" by code_simp+
  have free: "\<forall>x \<in> set (docs c empty_store). map_of x ''_id'' \<noteq> Some v" for c v
    by (cases c) (simp_all add: docs_def empty_store_def)
  have run: "app e (create_route c) r s =
      (fst (app e (create_route c) r s), snd (app e (create_route c) r s))" for e c r s
    by simp
  note generated =
    created_id_is_generated [OF auth run [of example_env Notes example_request empty_store] refl]
  note chosen =
    created_id_is_generated [OF auth' run [of example_env Folders request_with_id empty_store] refl]
  from generated noid have gi: "?i = JOid (createPk example_env)" by blast
  from generated up arr(1) free [of Notes ?i]
  have g1: "status (fst (app example_env (create_route Notes) example_request empty_store)) = 201"
    by blast
  with generated
  have g2: "(\<exists>d. docs Notes (snd (app example_env (create_route Notes) example_request empty_store))
             = docs Notes empty_store @ [d] \<and> map_of d ''_id'' = Some ?i)
     \<and> payload (fst (app example_env (create_route Notes) example_request empty_store))
       = Json (JObj [(''acknowledged'', JBool True), (''insertedId'', toJSON ?i)])"
    by blast
  from generated pk
  have g3: "new_ObjectId (toHexString (createPk example_env)) = Inr (createPk example_env)"
    by blast
  from chosen hasid have cj: "?j = JStr ''n1''" by blast
  from chosen up arr(2) free [of Folders ?j]
  have c1: "status (fst (app example_env (create_route Folders) request_with_id empty_store)) = 201"
    by blast
  with chosen
  have c2: "(\<exists>d. docs Folders (snd (app example_env (create_route Folders) request_with_id empty_store))
             = docs Folders empty_store @ [d] \<and> map_of d ''_id'' = Some ?j)
     \<and> payload (fst (app example_env (create_route Folders) request_with_id empty_store))
       = Json (JObj [(''acknowledged'', JBool True), (''insertedId'', toJSON ?j)])"
    by blast
  from g2 have g2': "(\<exists>d. docs Notes (snd (app example_env (create_route Notes) example_request empty_store))
             = docs Notes empty_store @ [d] \<and> map_of d ''_id'' = Some (JOid (createPk example_env)))
     \<and> payload (fst (app example_env (create_route Notes) example_request empty_store))
       = Json (JObj [(''acknowledged'', JBool True), (''insertedId'', JStr ''65f0a1b2c3d4e5f601234567'')])"
    unfolding gi by (simp add: hex)
  from c2 have c2': "(\<exists>d. docs Folders (snd (app example_env (create_route Folders) request_with_id empty_store))
             = docs Folders empty_store @ [d] \<and> map_of d ''_id'' = Some (JStr ''n1''))
     \<and> payload (fst (app example_env (create_route Folders) request_with_id empty_store))
       = Json (JObj [(''acknowledged'', JBool True), (''insertedId'', JStr ''n1'')])"
    unfolding cj by simp
  from g3 have g3': "new_ObjectId ''65f0a1b2c3d4e5f601234567'' = Inr (createPk example_env)"
    by (simp add: hex)
  from auth noid g1 g2' pk g3' hasid c1 c2' stored_note stored_folder show ?thesis by blast
qed

section \<open>Deleting twice\<close>



lemma delete_route_unfold:
  assumes "authenticateFirebaseToken e req = Inr user"
    and "new_ObjectId (params_id req) = Inr oid"
  shows "app e (delete_route c) req s =
    (case deleteOne e c [(''_id'', JOid oid), (''userId'', JStr (uid user))] s of
       (Inr deletedCount, s') \<Rightarrow>
          if deletedCount = 0
          then (json 404 (message (case c of Notes \<Rightarrow> ''Note not found''
                                   | Folders \<Rightarrow> ''Folder not found'')), s')
          else (json 200 (message (case c of Notes \<Rightarrow> ''Note deleted''
                                   | Folders \<Rightarrow> ''Folder deleted'')), s')
     | (Inl err, s') \<Rightarrow>
          (json 500 (message (case c of Notes \<Rightarrow> ''Failed to delete note''
                              | Folders \<Rightarrow> ''Failed to delete folder'')), s'))"
  using assms
  by (cases c)
     (simp_all add: protected_def delete_notes_id_def delete_folders_id_def
        split: prod.splits sum.splits)

lemma remove_first_keeps: "x \<in> set xs \<Longrightarrow> \<not> P x \<Longrightarrow> x \<in> set (remove_first P xs)"
  by (induction xs) auto

text \<open>
  A delete by identifier keeps every document that the requested identifier does not
  select; in particular one stored under an \<open>_id\<close> that is a string stays, whatever
  identifier is requested.
\<close>

lemma delete_keeps_unselected:
  assumes d: "d \<in> set (docs c s)"
    and other: "\<forall>oid. new_ObjectId (params_id req) = Inr oid \<longrightarrow> \<not> has_id oid d"
  shows "d \<in> set (docs c (snd (app e (delete_route c) req s)))"
proof (cases "authenticateFirebaseToken e req")
  case (Inl res)
  with d show ?thesis by (cases c) (simp_all add: protected_def)
next
  case (Inr user)
  show ?thesis
  proof (cases "new_ObjectId (params_id req)")
    case (Inl err)
    with Inr d show ?thesis
      by (cases c) (simp_all add: protected_def delete_notes_id_def delete_folders_id_def)
  next
    case (Inr oid)
    with other have "\<not> has_id oid d" by simp
    then have "\<not> matches [(''_id'', JOid oid), (''userId'', JStr (uid user))] d"
      by (simp add: matches_scoped)
    with d have "d \<in> set (docs c (snd (deleteOne e c
                   [(''_id'', JOid oid), (''userId'', JStr (uid user))] s)))"
      by (auto simp: deleteOne_def Let_def remove_first_keeps split: option.splits)
    then show ?thesis
      by (auto simp: delete_route_unfold [OF \<open>authenticateFirebaseToken e req = Inr user\<close> Inr]
               split: prod.splits sum.splits if_splits)
  qed
qed

lemma string_id_not_selected: "map_of d ''_id'' = Some (JStr x) \<Longrightarrow> \<not> has_id oid d"
  by (simp add: has_id_def matches_def field_matches_def)




section \<open>Create, then read\<close>

lemma get_route_unfold:
  assumes "authenticateFirebaseToken e req = Inr user"
    and "new_ObjectId (params_id req) = Inr oid"
    and "store_error e = None"
  shows "fst (app e (get_route c) req s) =
    (case List.find (matches [(''_id'', JOid oid), (''userId'', JStr (uid user))]) (docs c s) of
       None \<Rightarrow> json 404 (message (case c of Notes \<Rightarrow> ''Note not found''
                                 | Folders \<Rightarrow> ''Folder not found''))
     | Some d \<Rightarrow> json 200 (JObj d))"
  using assms
  by (cases c)
     (simp_all add: protected_def get_notes_id_def get_folders_id_def findOne_def Let_def
        split: option.splits)

text \<open>
  When the body names an \<open>_id\<close>, the create acknowledges the client's value. Here it
  is a string of 24 hexadecimal digits: the document is stored under the string, the
  read looks for the \<open>ObjectId\<close> of the same digits, and the owner's own read of the
  returned identifier is answered 404.
\<close>

theorem create_then_get_counterexample:
  "authenticateFirebaseToken example_env request_with_hex_id = Inr \<lparr>uid = ''u1''\<rparr>
   \<and> fst (app example_env PostNotes request_with_hex_id empty_store)
       = \<lparr>status = 201,
          payload = Json (JObj [(''acknowledged'', JBool True),
                                (''insertedId'', JStr ''65f0a1b2c3d4e5f601234567'')])\<rparr>
   \<and> params_id request_with_hex_id = ''65f0a1b2c3d4e5f601234567''
   \<and> fst (app example_env GetNoteById request_with_hex_id
            (snd (app example_env PostNotes request_with_hex_id empty_store)))
       = json 404 (message ''Note not found'')"
  by code_simp

text \<open>
  C9, amended. Let the body of an authenticated create carry no \<open>_id\<close> (or a null
  one), let the collection have unique identifiers, and let the document be created
  (status 201). Then the acknowledgement carries the new identifier as a string, and a
  read by that string, by the same verified identity and answered by the store, returns
  200 with a document whose fields are those of the body, with \<open>userId\<close> set to the
  requester's \<open>uid\<close> and \<open>_id\<close> set to the new identifier.
\<close>

theorem create_then_get:
  assumes auth: "authenticateFirebaseToken e req = Inr user"
    and noid: "map_of (body req) ''_id'' = None \<or> map_of (body req) ''_id'' = Some JNull"
    and pk: "oid_ok (createPk e)"
    and ok: "ids_ok (docs c s)"
    and created: "app e (create_route c) req s = (res, s1)" "status res = 201"
    and auth2: "authenticateFirebaseToken e2 req2 = Inr user"
    and id2: "params_id req2 = toHexString (createPk e)"
    and up2: "store_error e2 = None"
  shows "payload res = Json (JObj [(''acknowledged'', JBool True),
                                  (''insertedId'', JStr (params_id req2))])
       \<and> (\<exists>d. fst (app e2 (get_route c) req2 s1) = json 200 (JObj d)
              \<and> map_of d = (map_of (body req))(''userId'' \<mapsto> JStr (uid user),
                                               ''_id'' \<mapsto> JOid (createPk e)))"
proof -
  let ?pk = "createPk e"
  let ?flt = "[(''_id'', JOid ?pk), (''userId'', JStr (uid user))]"
  from create_route_201 [OF auth created] obtain r where
    ins: "insertOne e c (AList.update ''userId'' (JStr (uid user)) (body req)) s = (Inr r, s1)"
    and res: "res = json 201 r" by blast
  from insertOne_generated [OF ins noid] obtain d where
    r: "r = JObj [(''acknowledged'', JBool True), (''insertedId'', JOid ?pk)]"
    and s1: "docs c s1 = docs c s @ [d]"
    and d: "map_of d = (map_of (body req))(''userId'' \<mapsto> JStr (uid user), ''_id'' \<mapsto> JOid ?pk)"
    and fresh: "\<forall>x \<in> set (docs c s). map_of x ''_id'' \<noteq> Some (JOid ?pk)"
    by blast
  have old: "\<forall>x \<in> set (docs c s). \<not> matches ?flt x"
    using fresh has_id_iff [OF ok] by (auto simp: matches_scoped)
  have new: "matches ?flt d"
    using d by (simp add: matches_def field_matches_def)
  have found: "List.find (matches ?flt) (docs c s1) = Some d"
    unfolding s1 using old new by (rule find_append_last)
  have parse: "new_ObjectId (params_id req2) = Inr ?pk"
    unfolding id2 using pk by (rule new_ObjectId_toHexString)
  have "fst (app e2 (get_route c) req2 s1) = json 200 (JObj d)"
    by (simp add: get_route_unfold [OF auth2 parse up2] found)
  moreover have "payload res =
      Json (JObj [(''acknowledged'', JBool True), (''insertedId'', JStr (params_id req2))])"
    by (simp add: res r id2)
  ultimately show ?thesis using d by blast
qed

theorem create_then_get_witness:
  "authenticateFirebaseToken example_env example_request = Inr \<lparr>uid = ''u1''\<rparr>
   \<and> map_of (body example_request) ''_id'' = None
   \<and> oid_ok (createPk example_env)
   \<and> ids_ok (docs Notes empty_store)
   \<and> status (fst (app example_env (create_route Notes) example_request empty_store)) = 201
   \<and> authenticateFirebaseToken example_env request_for_created = Inr \<lparr>uid = ''u1''\<rparr>
   \<and> params_id request_for_created = toHexString (createPk example_env)
   \<and> store_error example_env = None
   \<and> payload (fst (app example_env (create_route Notes) example_request empty_store))
       = Json (JObj [(''acknowledged'', JBool True),
                     (''insertedId'', JStr (params_id request_for_created))])
   \<and> (\<exists>d. fst (app example_env (get_route Notes) request_for_created
                  (snd (app example_env (create_route Notes) example_request empty_store)))
             = json 200 (JObj d)
          \<and> map_of d = (map_of (body example_request))
                          (''userId'' \<mapsto> JStr ''u1'', ''_id'' \<mapsto> JOid (createPk example_env)))"
proof -
  have auth: "authenticateFirebaseToken example_env example_request = Inr \<lparr>uid = ''u1''\<rparr>"
    by code_simp
  have noid: "map_of (body example_request) ''_id'' = None" by code_simp
  then have noid': "map_of (body example_request) ''_id'' = None
      \<or> map_of (body example_request) ''_id'' = Some JNull" by simp
  have pk: "oid_ok (createPk example_env)" by code_simp
  have ok: "ids_ok (docs Notes empty_store)" by (rule ids_ok_empty_store)
  have st: "status (fst (app example_env (create_route Notes) example_request empty_store)) = 201"
    by code_simp
  have run: "app example_env (create_route Notes) example_request empty_store =
      (fst (app example_env (create_route Notes) example_request empty_store),
       snd (app example_env (create_route Notes) example_request empty_store))"
    by simp
  have auth2: "authenticateFirebaseToken example_env request_for_created = Inr \<lparr>uid = ''u1''\<rparr>"
    by code_simp
  have id2: "params_id request_for_created = toHexString (createPk example_env)"
    by code_simp
  have up2: "store_error example_env = None" by (simp add: example_env_def)
  from create_then_get [OF auth noid' pk ok run st auth2 id2 up2]
  have "payload (fst (app example_env (create_route Notes) example_request empty_store))
       = Json (JObj [(''acknowledged'', JBool True),
                     (''insertedId'', JStr (params_id request_for_created))])
   \<and> (\<exists>d. fst (app example_env (get_route Notes) request_for_created
                  (snd (app example_env (create_route Notes) example_request empty_store)))
             = json 200 (JObj d)
          \<and> map_of d = (map_of (body example_request))
                          (''userId'' \<mapsto> JStr ''u1'', ''_id'' \<mapsto> JOid (createPk example_env)))"
    by simp
  with auth noid pk ok st auth2 id2 up2 show ?thesis by blast
qed

section \<open>Update and the owner field\<close>

text \<open>
  C3. \<open>PUT /notes/:id\<close> hands the whole request body to \<open>$set\<close>. The owner \<open>u1\<close>
  of a note sends a body with \<open>userId: u2\<close>: the update is acknowledged, the stored
  note now has owner \<open>u2\<close>, and the former owner's read of the same identifier is
  answered 404.
\<close>

theorem update_overwrites_owner:
  "authenticateFirebaseToken example_env request_with_owner = Inr \<lparr>uid = ''u1''\<rparr>
   \<and> map owner (notesCollection store_with_note) = [Some ''u1'']
   \<and> fst (app example_env PutNoteById request_with_owner store_with_note)
       = json 200 (message ''Note updated successfully'')
   \<and> map owner (notesCollection (snd (app example_env PutNoteById request_with_owner store_with_note)))
       = [Some ''u2'']
   \<and> fst (app example_env GetNoteById example_request
            (snd (app example_env PutNoteById request_with_owner store_with_note)))
       = json 404 (message ''Note not found'')"
  by code_simp

section \<open>Identifiers that do not parse\<close>

text \<open>
  On every route that takes an identifier, one that does not parse makes \<open>new ObjectId\<close>
  throw before the store is called: the store comes back untouched. The response is that
  of the handler's \<open>catch\<close>, 400 on the two reads and 500 on update and delete.
\<close>

lemma invalid_id_no_store_call:
  assumes auth: "authenticateFirebaseToken e req = Inr user"
    and bad: "new_ObjectId (params_id req) = Inl err"
    and r: "r \<in> {GetNoteById, PutNoteById, DeleteNoteById, GetFolderById, DeleteFolderById}"
  shows "snd (app e r req s) = s
       \<and> status (fst (app e r req s)) = (if r = GetNoteById \<or> r = GetFolderById then 400 else 500)"
proof -
  from r consider "r = GetNoteById" | "r = PutNoteById" | "r = DeleteNoteById"
    | "r = GetFolderById" | "r = DeleteFolderById" by auto
  then show ?thesis
  proof cases
    case 1 with auth bad show ?thesis by (simp add: protected_def get_notes_id_def)
  next
    case 2 with auth bad show ?thesis by (simp add: protected_def put_notes_id_def)
  next
    case 3 with auth bad show ?thesis by (simp add: protected_def delete_notes_id_def)
  next
    case 4 with auth bad show ?thesis by (simp add: protected_def get_folders_id_def)
  next
    case 5 with auth bad show ?thesis by (simp add: protected_def delete_folders_id_def)
  qed
qed

text \<open>
  C5. The identifier \<open>xyz\<close> is not 24 hexadecimal digits. An authenticated
  \<open>PUT /notes/xyz\<close>, \<open>DELETE /notes/xyz\<close> or \<open>DELETE /folders/xyz\<close> leaves the
  store untouched and is answered 500 with the route's generic failure message, while
  \<open>GET /notes/xyz\<close> is answered 400.
\<close>

theorem invalid_id_on_update_and_delete:
  "new_ObjectId ''xyz'' = Inl BSONError
   \<and> app example_env PutNoteById (example_request\<lparr>params_id := ''xyz''\<rparr>) store_with_note
       = (json 500 (message ''Failed to update note''), store_with_note)
   \<and> app example_env DeleteNoteById (example_request\<lparr>params_id := ''xyz''\<rparr>) store_with_note
       = (json 500 (message ''Failed to delete note''), store_with_note)
   \<and> app example_env DeleteFolderById (example_request\<lparr>params_id := ''xyz''\<rparr>) store_with_note
       = (json 500 (message ''Failed to delete folder''), store_with_note)
   \<and> app example_env GetNoteById (example_request\<lparr>params_id := ''xyz''\<rparr>) store_with_note
       = (json 400 (message ''Invalid note ID''), store_with_note)"
  by code_simp

section \<open>Store failures\<close>

lemma authenticate_store_error [simp]:
  "authenticateFirebaseToken (e\<lparr>store_error := x\<rparr>) req = authenticateFirebaseToken e req"
  by (simp add: authenticateFirebaseToken_def split: option.splits list.splits)

text \<open>
  On the routes other than the two reads by identifier, a store call that throws is
  answered 500, and the response is the same whatever the error says.
\<close>

lemma store_failure_500:
  assumes auth: "authenticateFirebaseToken e req = Inr user"
    and down: "store_error e = Some detail"
    and r: "r \<in> {PostNotes, GetNotes, PutNoteById, DeleteNoteById,
                  PostFolders, GetFolders, DeleteFolderById}"
  shows "status (fst (app e r req s)) = 500
       \<and> fst (app (e\<lparr>store_error := Some detail'\<rparr>) r req s) = fst (app e r req s)"
proof -
  from r consider "r = PostNotes" | "r = GetNotes" | "r = PutNoteById" | "r = DeleteNoteById"
    | "r = PostFolders" | "r = GetFolders" | "r = DeleteFolderById" by auto
  then show ?thesis
  proof cases
    case 1 with auth down show ?thesis
      by (simp add: protected_def post_notes_def insertOne_def Let_def)
  next
    case 2 with auth down show ?thesis
      by (simp add: protected_def get_notes_def find_toArray_def Let_def)
  next
    case 3 with auth down show ?thesis
      by (simp add: protected_def put_notes_id_def updateOne_def Let_def split: sum.splits)
  next
    case 4 with auth down show ?thesis
      by (simp add: protected_def delete_notes_id_def deleteOne_def Let_def split: sum.splits)
  next
    case 5 with auth down show ?thesis
      by (simp add: protected_def post_folders_def insertOne_def Let_def)
  next
    case 6 with auth down show ?thesis
      by (simp add: protected_def get_folders_def find_toArray_def Let_def)
  next
    case 7 with auth down show ?thesis
      by (simp add: protected_def delete_folders_id_def deleteOne_def Let_def split: sum.splits)
  qed
qed

text \<open>
  C6. The store call of an authenticated \<open>GET /notes/:id\<close> or \<open>GET /folders/:id\<close>
  with a well-formed identifier throws (a lost connection): the handler's only \<open>catch\<close>
  answers 400 with the invalid-identifier message, not 500.
\<close>

theorem store_failure_on_get_by_id:
  "store_error failing_env = Some ''connection reset''
   \<and> new_ObjectId (params_id example_request) = Inr (ObjectId ''65f0a1b2c3d4e5f601234567'')
   \<and> fst (app failing_env GetNoteById example_request store_with_note)
       = json 400 (message ''Invalid note ID'')
   \<and> fst (app failing_env GetFolderById example_request store_with_note)
       = json 400 (message ''Invalid folder ID'')
   \<and> calls (snd (app failing_env GetNoteById example_request store_with_note))
       = [FindOne Notes [(''_id'', JOid (ObjectId ''65f0a1b2c3d4e5f601234567'')),
                         (''userId'', JStr ''u1'')]]"
  by code_simp

section \<open>The routes of \<open>src/index.js\<close>\<close>

text \<open>
  C10. No route of \<open>src/index.js\<close> looks at the \<open>Authorization\<close> header: the result
  is the same for any credential and for none. When the store answers, \<open>GET /notes\<close>
  returns every note of the collection and \<open>GET /folders\<close> every folder; and
  \<open>GET /notes/:id\<close> returns the note with the requested identifier, whatever its
  \<open>userId\<close> field holds.
\<close>

theorem index_routes_unauthenticated:
  "index_app e r (req\<lparr>authorization := a\<rparr>) s = index_app e r req s
   \<and> (store_error e = None \<longrightarrow>
        fst (index_app e IndexGetNotes req s) = json 200 (JArr (map JObj (notesCollection s)))
      \<and> fst (index_app e IndexGetFolders req s) = json 200 (JArr (map JObj (folderCollection s))))
   \<and> (\<forall>oid d. store_error e = None \<and> new_ObjectId (params_id req) = Inr oid
          \<and> ids_ok (notesCollection s) \<and> d \<in> set (notesCollection s)
          \<and> map_of d ''_id'' = Some (JOid oid)
        \<longrightarrow> fst (index_app e IndexGetNoteById req s) = json 200 (JObj d))"
proof (intro conjI allI impI)
  show "index_app e r (req\<lparr>authorization := a\<rparr>) s = index_app e r req s"
    by (cases r) (simp_all add: index_get_notes_def index_get_notes_id_def index_get_folders_def)
next
  assume "store_error e = None"
  then show "fst (index_app e IndexGetNotes req s) = json 200 (JArr (map JObj (notesCollection s)))"
    by (simp add: index_get_notes_def find_toArray_def Let_def docs_def)
next
  assume "store_error e = None"
  then show "fst (index_app e IndexGetFolders req s)
               = json 200 (JArr (map JObj (folderCollection s)))"
    by (simp add: index_get_folders_def find_toArray_def Let_def docs_def)
next
  fix oid d
  assume a: "store_error e = None \<and> new_ObjectId (params_id req) = Inr oid
          \<and> ids_ok (notesCollection s) \<and> d \<in> set (notesCollection s)
          \<and> map_of d ''_id'' = Some (JOid oid)"
  then have ok: "ids_ok (notesCollection s)" and d: "d \<in> set (notesCollection s)" by simp_all
  from a has_id_iff [OF ok d] have hid: "has_id oid d" by simp
  have "List.find (matches [(''_id'', JOid oid)]) (notesCollection s) = Some d"
    using ok d hid by (intro find_unique [where oid = oid]) (simp_all add: has_id_def)
  with a show "fst (index_app e IndexGetNoteById req s) = json 200 (JObj d)"
    by (simp add: index_get_notes_id_def findOne_def Let_def docs_def)
qed

theorem index_routes_unauthenticated_witness:
  "store_error example_env = None
   \<and> new_ObjectId (params_id request_of_u2) = Inr (ObjectId ''65f0a1b2c3d4e5f601234567'')
   \<and> ids_ok (notesCollection store_with_note)
   \<and> note_of_u1 \<in> set (notesCollection store_with_note)
   \<and> map_of note_of_u1 ''_id'' = Some (JOid (ObjectId ''65f0a1b2c3d4e5f601234567''))
   \<and> owner note_of_u1 = Some ''u1''
   \<and> authorization request_of_u2 = Some ''Bearer tok2''
   \<and> fst (index_app example_env IndexGetNoteById request_of_u2 store_with_note)
       = json 200 (JObj note_of_u1)
   \<and> index_app example_env IndexGetNoteById (request_of_u2\<lparr>authorization := None\<rparr>) store_with_note
       = index_app example_env IndexGetNoteById request_of_u2 store_with_note
   \<and> fst (index_app example_env IndexGetNotes request_of_u2 store_with_note)
       = json 200 (JArr (map JObj (notesCollection store_with_note)))
   \<and> notesCollection store_with_note = [note_of_u1]"
proof -
  let ?oid = "ObjectId ''65f0a1b2c3d4e5f601234567''"
  have up: "store_error example_env = None" by (simp add: example_env_def)
  have oid: "new_ObjectId (params_id request_of_u2) = Inr ?oid" by code_simp
  have ok: "ids_ok (notesCollection store_with_note)" by code_simp
  have all: "notesCollection store_with_note = [note_of_u1]" by (simp add: store_with_note_def)
  then have mem: "note_of_u1 \<in> set (notesCollection store_with_note)" by simp
  have nid: "map_of note_of_u1 ''_id'' = Some (JOid ?oid)" by code_simp
  have own: "owner note_of_u1 = Some ''u1''" by code_simp
  have hdr: "authorization request_of_u2 = Some ''Bearer tok2''" by code_simp
  note inst = index_routes_unauthenticated
               [where e = example_env and r = IndexGetNoteById and req = request_of_u2
                  and a = None and s = store_with_note]
  from inst have same:
    "index_app example_env IndexGetNoteById (request_of_u2\<lparr>authorization := None\<rparr>) store_with_note
       = index_app example_env IndexGetNoteById request_of_u2 store_with_note"
    by (rule conjunct1)
  from inst up have list:
    "fst (index_app example_env IndexGetNotes request_of_u2 store_with_note)
       = json 200 (JArr (map JObj (notesCollection store_with_note)))"
    by blast
  from inst up oid ok mem nid have one:
    "fst (index_app example_env IndexGetNoteById request_of_u2 store_with_note)
       = json 200 (JObj note_of_u1)"
    by blast
  from up oid ok mem nid own hdr one same list all show ?thesis by blast
qed

end
